theory Spec2Isabelle
  imports Complex_Main
begin

section \<open>Values, exceptions and the arithmetic library\<close>

text \<open>
  The repository holds two Python classes, \<open>BSMVerification\<close>
  (\<open>deepseek_python_20251224_19803d.py\<close>) and \<open>BSMCalculator\<close> (\<open>src/bsm_calculator.py\<close>).
  Both evaluate closed formulas with the arbitrary-precision library mpmath and store the
  values in the dictionary \<open>self.results\<close>.

  An \<open>mpf\<close> value is modelled as a real number. Every operation of the library yields the
  exact result of the operation, rounded to the working precision; the rounding is a
  parameter of the model (\<open>rnd L p\<close> for the precision \<open>p\<close> of \<open>mp.mp.dps\<close>), and so are
  the rounding of Python's native floats (\<open>flt L\<close>) and the root finder \<open>mp.findroot\<close>.
  Two more things differ between versions of mpmath and are parameters as well: whether
  an \<open>mpf\<close> accepts a format specification such as \<open>:.2e\<close> (\<open>fmt L spec x\<close> is \<open>Inl\<close> of the
  exception when it does not), and the exception that \<open>int\<close> raises for an infinite \<open>mpf\<close>
  (\<open>int_inf L\<close>). Exact arithmetic is the library \<open>exact_lib\<close>, whose roundings are the
  identity.

  Python exceptions are values of \<open>error\<close>. \<open>NotReal\<close> stands for the places where mpmath
  would leave the finite real numbers (the logarithm of a number that is not positive, a
  power of a base that is not positive): the model stops there. \<open>ConvergenceError\<close> is the
  name the specification gives to a failure of the root finder; no statement of either
  source file raises it.
\<close>

datatype error =
    ValueError | ZeroDivisionError | KeyError string | TypeError | OverflowError
  | NotReal | ConvergenceError

type_synonym cache = "string \<rightharpoonup> real"

type_synonym rounding = "real \<Rightarrow> real"

record mplib =
  rnd :: "nat \<Rightarrow> rounding"
  flt :: "rounding"
  findroot :: "nat \<Rightarrow> (rounding \<Rightarrow> real \<Rightarrow> error + real) \<Rightarrow> real \<Rightarrow> error + real"
  fmt :: "string \<Rightarrow> real \<Rightarrow> error + unit"
  int_inf :: error

definition exact_lib ::
  "(nat \<Rightarrow> (rounding \<Rightarrow> real \<Rightarrow> error + real) \<Rightarrow> real \<Rightarrow> error + real) \<Rightarrow> mplib" where
  \<comment> \<open>no rounding; formatting works and \<open>int\<close> of an infinity raises OverflowError, as in
      mpmath 1.4\<close>
  "exact_lib solver =
     \<lparr>rnd = (\<lambda>p x. x), flt = (\<lambda>x. x), findroot = solver,
      fmt = (\<lambda>spec x. Inr ()), int_inf = OverflowError\<rparr>"

definition bind_err :: "error + 'a \<Rightarrow> ('a \<Rightarrow> error + 'b) \<Rightarrow> error + 'b" where
  "bind_err m k = (case m of Inl err \<Rightarrow> Inl err | Inr x \<Rightarrow> k x)"

subsection \<open>Operations on mpf values under a rounding\<close>

definition mpf :: "rounding \<Rightarrow> real \<Rightarrow> real" where
  "mpf r x = r x"

definition mp_e :: "rounding \<Rightarrow> real" where
  "mp_e r = r (exp 1)"

definition mp_pi :: "rounding \<Rightarrow> real" where
  "mp_pi r = r pi"

definition mp_sqrt :: "rounding \<Rightarrow> real \<Rightarrow> real" where
  "mp_sqrt r x = r (sqrt x)"

definition mp_add :: "rounding \<Rightarrow> real \<Rightarrow> real \<Rightarrow> real" where
  "mp_add r a b = r (a + b)"

definition mp_sub :: "rounding \<Rightarrow> real \<Rightarrow> real \<Rightarrow> real" where
  "mp_sub r a b = r (a - b)"

definition mp_mul :: "rounding \<Rightarrow> real \<Rightarrow> real \<Rightarrow> real" where
  "mp_mul r a b = r (a * b)"

definition mp_neg :: "rounding \<Rightarrow> real \<Rightarrow> real" where
  "mp_neg r a = r (- a)"

definition mp_abs :: "rounding \<Rightarrow> real \<Rightarrow> real" where
  "mp_abs r a = r \<bar>a\<bar>"

definition mp_powi :: "rounding \<Rightarrow> real \<Rightarrow> nat \<Rightarrow> real" where
  "mp_powi r a n = r (a ^ n)"

definition mp_exp :: "rounding \<Rightarrow> real \<Rightarrow> real" where
  "mp_exp r a = r (exp a)"

definition mp_div :: "rounding \<Rightarrow> real \<Rightarrow> real \<Rightarrow> error + real" where
  "mp_div r a b = (if b = 0 then Inl ZeroDivisionError else Inr (r (a / b)))"

definition mp_log :: "rounding \<Rightarrow> real \<Rightarrow> error + real" where
  "mp_log r a = (if 0 < a then Inr (r (ln a)) else Inl NotReal)"

definition mp_pow :: "rounding \<Rightarrow> real \<Rightarrow> real \<Rightarrow> error + real" where
  "mp_pow r a b = (if 0 < a then Inr (r (a powr b)) else Inl NotReal)"

text \<open>
  \<open>mp.log10\<close> of zero is minus infinity in mpmath. \<open>int\<close> of a finite value truncates
  towards zero; \<open>int\<close> of an infinity raises an exception whose class depends on the
  version of the library (ValueError in mpmath 1.3, OverflowError in mpmath 1.4), the
  first argument of \<open>py_int\<close>.
\<close>

datatype xmpf = Fin real | PInf | MInf

definition mp_log10 :: "rounding \<Rightarrow> real \<Rightarrow> error + xmpf" where
  "mp_log10 r a =
     (if a = 0 then Inr MInf else if 0 < a then Inr (Fin (r (log 10 a))) else Inl NotReal)"

fun xneg :: "xmpf \<Rightarrow> xmpf" where
  "xneg (Fin x) = Fin (- x)"
| "xneg PInf = MInf"
| "xneg MInf = PInf"

fun py_int :: "error \<Rightarrow> xmpf \<Rightarrow> error + int" where
  "py_int ex (Fin x) = Inr (if 0 \<le> x then \<lfloor>x\<rfloor> else \<lceil>x\<rceil>)"
| "py_int ex PInf = Inl ex"
| "py_int ex MInf = Inl ex"

definition significant_digits :: "mplib \<Rightarrow> nat \<Rightarrow> real \<Rightarrow> error + int" where
  \<comment> \<open>\<open>int(-mp.log10(rel_error))\<close>, the argument of both "Significant digits" prints\<close>
  "significant_digits L p rel_error =
     bind_err (mp_log10 (rnd L p) rel_error) (\<lambda>l. py_int (int_inf L) (xneg l))"

text \<open>Division of two native floats.\<close>

definition float_div :: "rounding \<Rightarrow> real \<Rightarrow> real \<Rightarrow> error + real" where
  "float_div fl a b = (if b = 0 then Inl ZeroDivisionError else Inr (fl (a / b)))"

section \<open>The dictionary keys\<close>

text \<open>
  Keys of \<open>self.results\<close> are written in ASCII: \<open>G\<close> for the script letter of the geometric
  coupling (so \<open>G_target\<close>, \<open>G_error\<close>), \<open>alpha\<close> for the Greek letter (\<open>alpha_inv_pred\<close>,
  \<open>alpha_inv_CODATA\<close>), \<open>Lambda\<close> (\<open>Lambda_QCD_bare\<close>, \<open>Lambda_QCD_1GeV\<close>), \<open>mu\<close>, and
  \<open>Gdot_over_G\<close> for the dotted G. The other keys are the source's.
\<close>

section \<open>Compute-if-missing\<close>

text \<open>
  Every stage starts with \<open>if key not in self.results: self.upstream()\<close>: the upstream stage
  runs only when the key is absent, its return value is dropped, and an exception it
  raises leaves the stage at once.
\<close>

definition ensure ::
    "string \<Rightarrow> (cache \<Rightarrow> (error + 'a) \<times> cache) \<Rightarrow> cache \<Rightarrow> (error + unit) \<times> cache" where
  "ensure k upstream c =
     (if c k = None
      then (case upstream c of (Inl err, c') \<Rightarrow> (Inl err, c') | (Inr _, c') \<Rightarrow> (Inr (), c'))
      else (Inr (), c))"

section \<open>Class BSMVerification\<close>

definition epsilon_BSM_derived :: "rounding \<Rightarrow> error + real" where
  \<comment> \<open>lines 20 to 26 of \<open>verify_transcendental_equation\<close>; the value is not used afterwards\<close>
  "epsilon_BSM_derived r =
     (let hbar = mpf r (1.054571817 / 10 ^ 34);
          v0 = mp_mul r (mpf r 0.056) (mpf r (1.22 * 10 ^ 19));
          mu = mpf r (10 ^ 19);
          V_prime_prime = mp_mul r (mp_mul r 2 (mpf r 0.1)) (mp_powi r v0 2)
      in bind_err (mp_div r hbar (mp_mul r 32 (mp_powi r (mp_pi r) 2))) (\<lambda>a.
         bind_err (mp_div r (mp_powi r V_prime_prime 2) (mp_powi r v0 2)) (\<lambda>b.
         bind_err (mp_div r V_prime_prime (mp_powi r mu 2)) (\<lambda>q.
         bind_err (mp_log r q) (\<lambda>l.
         Inr (mp_mul r (mp_mul r a b) l))))))"

definition log_term :: "rounding \<Rightarrow> error + real" where
  \<comment> \<open>\<open>mp.log(1 + e/pi)\<close>\<close>
  "log_term r = bind_err (mp_div r (mp_e r) (mp_pi r)) (\<lambda>q. mp_log r (mp_add r 1 q))"

definition transcendental_eq :: "real \<Rightarrow> rounding \<Rightarrow> real \<Rightarrow> error + real" where
  \<comment> \<open>the nested function \<open>f\<close> (\<open>transcendental_eq\<close> in BSMCalculator), which captures
      \<open>epsilon_BSM_value\<close>; \<open>r\<close> is the rounding in force when the root finder calls it\<close>
  "transcendental_eq epsilon_BSM_value r T =
     bind_err (log_term r) (\<lambda>l.
     let left = mp_mul r T l in
     bind_err (mp_pow r (mp_e r) (mp_mul r (mp_neg r (mp_pi r)) T)) (\<lambda>pw.
     let right = mp_add r (mp_add r 1 pw) epsilon_BSM_value in
     Inr (mp_sub r left right)))"

definition verify_transcendental_equation ::
    "mplib \<Rightarrow> nat \<Rightarrow> cache \<Rightarrow> (error + real \<times> real) \<times> cache" where
  "verify_transcendental_equation L p c =
     (let r = rnd L p in
      case epsilon_BSM_derived r of
        Inl err \<Rightarrow> (Inl err, c)
      | Inr epsilon_BSM \<Rightarrow>
          (let epsilon_BSM_value = mpf r (4.350917 / 10 ^ 14) in
           case findroot L p (transcendental_eq epsilon_BSM_value) (mpf r 1.0) of
             Inl err \<Rightarrow> (Inl err, c)
           | Inr T_eq \<Rightarrow>
               (case log_term r of
                  Inl err \<Rightarrow> (Inl err, c)
                | Inr lt \<Rightarrow>
                    (Inr (T_eq, epsilon_BSM_value),
                     c(''epsilon_BSM'' \<mapsto> epsilon_BSM_value, ''T_eq'' \<mapsto> T_eq,
                       ''log_term'' \<mapsto> lt)))))"

definition geometric_coupling :: "rounding \<Rightarrow> real \<Rightarrow> error + real" where
  \<comment> \<open>\<open>1/(e * pi * sqrt2 * T_eq)\<close>\<close>
  "geometric_coupling r T_eq =
     mp_div r 1 (mp_mul r (mp_mul r (mp_mul r (mp_e r) (mp_pi r)) (mp_sqrt r 2)) T_eq)"

definition verify_geometric_coupling :: "mplib \<Rightarrow> nat \<Rightarrow> cache \<Rightarrow> (error + real) \<times> cache" where
  "verify_geometric_coupling L p c0 =
     (let r = rnd L p in
      case ensure ''T_eq'' (verify_transcendental_equation L p) c0 of
        (Inl err, c) \<Rightarrow> (Inl err, c)
      | (Inr _, c) \<Rightarrow>
          (case c ''T_eq'' of
             None \<Rightarrow> (Inl (KeyError ''T_eq''), c)
           | Some T_eq \<Rightarrow>
               (case geometric_coupling r T_eq of
                  Inl err \<Rightarrow> (Inl err, c)
                | Inr G \<Rightarrow>
                    (let G_target = mpf r 0.074660340411 in
                     (Inr G,
                      c(''G'' \<mapsto> G, ''G_target'' \<mapsto> G_target,
                        ''G_error'' \<mapsto> mp_abs r (mp_sub r G G_target)))))))"

definition verify_zdc ::
    "mplib \<Rightarrow> nat \<Rightarrow> cache \<Rightarrow> (error + real \<times> real \<times> real) \<times> cache" where
  "verify_zdc L p c0 =
     (let r = rnd L p in
      case ensure ''G'' (verify_geometric_coupling L p) c0 of
        (Inl err, c) \<Rightarrow> (Inl err, c)
      | (Inr _, c) \<Rightarrow>
          (let mu = mpf r 1836.15267343 in
           case c ''G'' of
             None \<Rightarrow> (Inl (KeyError ''G''), c)
           | Some G \<Rightarrow>
               (let alpha_inv_pred = mp_mul r mu G;
                    alpha_inv_CODATA = mpf r 137.035999084;
                    err = mp_abs r (mp_sub r alpha_inv_pred alpha_inv_CODATA)
                in case mp_div r err alpha_inv_CODATA of
                     Inl ex \<Rightarrow> (Inl ex, c)
                   | Inr rel_error \<Rightarrow>
                       (Inr (alpha_inv_pred, alpha_inv_CODATA, err),
                        c(''alpha_inv_pred'' \<mapsto> alpha_inv_pred,
                          ''alpha_inv_CODATA'' \<mapsto> alpha_inv_CODATA,
                          ''zdc_error'' \<mapsto> err,
                          ''zdc_rel_error'' \<mapsto> rel_error)))))"

definition gyro_terms :: "rounding \<Rightarrow> rounding \<Rightarrow> error + real \<times> real \<times> real \<times> real \<times> real" where
  \<comment> \<open>\<open>term1\<close> to \<open>term5\<close> of \<open>verify_qcd_scale\<close>; \<open>term4\<close> divides two Python ints, a float\<close>
  "gyro_terms r fl =
     (let sqrt2 = mp_sqrt r 2; N_c = 3 in
      bind_err (mp_div r 1 (mp_mul r 2 sqrt2)) (\<lambda>term1.
      bind_err (mp_div r (mp_sub r (mp_e r) 1) (mp_add r (mp_e r) 1)) (\<lambda>term2.
      bind_err (log_term r) (\<lambda>l.
      bind_err (mp_div r 1 l) (\<lambda>term3.
      let term4 = fl ((N_c ^ 2 - 1) / (2 * N_c));
          term5 = mpf r 2.14
      in Inr (term1, term2, term3, term4, term5))))))"

definition qcd_scale :: "rounding \<Rightarrow> rounding \<Rightarrow> error + real \<times> real \<times> real" where
  \<comment> \<open>lines 91 to 117: \<open>(C_gyro, Lambda_QCD_bare, Lambda_QCD_1GeV)\<close>\<close>
  "qcd_scale r fl =
     (let m_e_eV = mpf r 510998.95;
          alpha_inv = mpf r 137.035999084
      in bind_err (mp_div r 1 alpha_inv) (\<lambda>alpha.
         bind_err (gyro_terms r fl) (\<lambda>(term1, term2, term3, term4, term5).
         let C_gyro = mp_mul r (mp_mul r (mp_mul r (mp_mul r term1 term2) term3) term4) term5 in
         bind_err (mp_div r m_e_eV alpha) (\<lambda>q.
         bind_err (mp_div r (mp_mul r q C_gyro) (10 ^ 6)) (\<lambda>Lambda_QCD_bare.
         let N_c = 3;
             b0 = fl ((11 * N_c - 2 * 3) / 3);
             alpha_s_1GeV = mpf r 0.45;
             alpha_s_Lambda = mpf r 1.0
         in bind_err (mp_div r 1 alpha_s_Lambda) (\<lambda>u.
            bind_err (mp_div r 1 alpha_s_1GeV) (\<lambda>v.
            bind_err (mp_div r (mp_mul r 2 (mp_pi r)) (mp_mul r b0 (mp_sub r u v))) (\<lambda>x.
            let Lambda_QCD_1GeV = mp_mul r Lambda_QCD_bare (mp_exp r x) in
            Inr (C_gyro, Lambda_QCD_bare, Lambda_QCD_1GeV)))))))))"

definition verify_qcd_scale :: "mplib \<Rightarrow> nat \<Rightarrow> cache \<Rightarrow> (error + real) \<times> cache" where
  "verify_qcd_scale L p c0 =
     (case ensure ''G'' (verify_geometric_coupling L p) c0 of
        (Inl err, c) \<Rightarrow> (Inl err, c)
      | (Inr _, c) \<Rightarrow>
          (case qcd_scale (rnd L p) (flt L) of
             Inl err \<Rightarrow> (Inl err, c)
           | Inr (C_gyro, Lambda_QCD_bare, Lambda_QCD_1GeV) \<Rightarrow>
               (Inr Lambda_QCD_1GeV,
                c(''C_gyro'' \<mapsto> C_gyro, ''Lambda_QCD_bare'' \<mapsto> Lambda_QCD_bare,
                  ''Lambda_QCD_1GeV'' \<mapsto> Lambda_QCD_1GeV))))"

definition substrate_mass :: "rounding \<Rightarrow> real \<Rightarrow> real \<Rightarrow> real \<Rightarrow> real \<Rightarrow> error + real" where
  \<comment> \<open>\<open>M_s = (hbar/c) * (pi/sqrt2) * (1/(G * T_eq))\<close> with mpf \<open>hbar\<close> and \<open>c\<close>\<close>
  "substrate_mass r hbar c G T_eq =
     bind_err (mp_div r hbar c) (\<lambda>a.
     bind_err (mp_div r (mp_pi r) (mp_sqrt r 2)) (\<lambda>b.
     bind_err (mp_div r 1 (mp_mul r G T_eq)) (\<lambda>d.
     Inr (mp_mul r (mp_mul r a b) d))))"

definition verify_gravitational_constant ::
    "mplib \<Rightarrow> nat \<Rightarrow> cache \<Rightarrow> (error + real \<times> real) \<times> cache" where
  "verify_gravitational_constant L p c0 =
     (let r = rnd L p;
          c = mpf r 299792458;
          hbar = mpf r (1.054571817 / 10 ^ 34)
      in case ensure ''G'' (verify_geometric_coupling L p) c0 of
           (Inl err, c1) \<Rightarrow> (Inl err, c1)
         | (Inr _, c1) \<Rightarrow>
             (case c1 ''G'' of
                None \<Rightarrow> (Inl (KeyError ''G''), c1)
              | Some G \<Rightarrow>
                  (case c1 ''T_eq'' of
                     None \<Rightarrow> (Inl (KeyError ''T_eq''), c1)
                   | Some T_eq \<Rightarrow>
                       (case bind_err (substrate_mass r hbar c G T_eq) (\<lambda>M_s.
                             bind_err (mp_div r (mp_powi r c 3) hbar) (\<lambda>a.
                             bind_err (mp_div r (mp_powi r G 2) (mp_powi r M_s 2)) (\<lambda>b.
                             Inr (M_s, mp_mul r a b)))) of
                          Inl err \<Rightarrow> (Inl err, c1)
                        | Inr (M_s, G_pred) \<Rightarrow>
                            (let G_CODATA = mpf r (6.67430 / 10 ^ 11);
                                 Gdot_over_G = mp_neg r (mpf r (0.8 / 10 ^ 12))
                             in (Inr (G_pred, Gdot_over_G),
                                 c1(''M_s'' \<mapsto> M_s, ''G_pred'' \<mapsto> G_pred,
                                    ''G_CODATA'' \<mapsto> G_CODATA,
                                    ''Gdot_over_G'' \<mapsto> Gdot_over_G)))))))"

definition lookup :: "cache \<Rightarrow> string \<Rightarrow> error + real" where
  \<comment> \<open>\<open>self.results[k]\<close>\<close>
  "lookup c k = (case c k of None \<Rightarrow> Inl (KeyError k) | Some v \<Rightarrow> Inr v)"

definition run_all_verifications :: "mplib \<Rightarrow> nat \<Rightarrow> cache \<Rightarrow> (error + cache) \<times> cache" where
  \<comment> \<open>the stage calls of the driver in their order, with the print arguments that can
      raise: the reads of \<open>self.results\<close>, the relative error formatted with \<open>:.2e\<close> (line
      189) and the significant-digit count (line 190)\<close>
  "run_all_verifications L p c0 =
     (case verify_transcendental_equation L p c0 of
        (Inl err, c1) \<Rightarrow> (Inl err, c1)
      | (Inr _, c1) \<Rightarrow>
     (case verify_geometric_coupling L p c1 of
        (Inl err, c2) \<Rightarrow> (Inl err, c2)
      | (Inr _, c2) \<Rightarrow>
     (case lookup c2 ''G_error'' of
        Inl err \<Rightarrow> (Inl err, c2)
      | Inr _ \<Rightarrow>
     (case verify_zdc L p c2 of
        (Inl err, c3) \<Rightarrow> (Inl err, c3)
      | (Inr _, c3) \<Rightarrow>
     (case bind_err (lookup c3 ''zdc_rel_error'') (\<lambda>rel_error.
             bind_err (fmt L ''.2e'' rel_error) (\<lambda>_. significant_digits L p rel_error)) of
        Inl err \<Rightarrow> (Inl err, c3)
      | Inr _ \<Rightarrow>
     (case verify_qcd_scale L p c3 of
        (Inl err, c4) \<Rightarrow> (Inl err, c4)
      | (Inr _, c4) \<Rightarrow>
     (case bind_err (lookup c4 ''C_gyro'') (\<lambda>_. lookup c4 ''Lambda_QCD_bare'') of
        Inl err \<Rightarrow> (Inl err, c4)
      | Inr _ \<Rightarrow>
     (case verify_gravitational_constant L p c4 of
        (Inl err, c5) \<Rightarrow> (Inl err, c5)
      | (Inr _, c5) \<Rightarrow>
     (case bind_err (lookup c5 ''M_s'') (\<lambda>_. lookup c5 ''G_CODATA'') of
        Inl err \<Rightarrow> (Inl err, c5)
      | Inr _ \<Rightarrow> (Inr c5, c5))))))))))"

section \<open>Class BSMCalculator\<close>

text \<open>
  \<open>bsm_calculator.py\<close> imports \<open>c\<close>, \<open>hbar\<close> and \<open>G\<close> from \<open>scipy.constants\<close>, native floats
  of a table that is not part of the repository: they are parameters here.
\<close>

record scipy_constants =
  sc_c :: real
  sc_hbar :: real
  sc_G :: real

definition compute_geometric_factors ::
    "mplib \<Rightarrow> nat \<Rightarrow> cache \<Rightarrow> (error + real \<times> real) \<times> cache" where
  "compute_geometric_factors L p c =
     (let r = rnd L p;
          epsilon_BSM = mpf r (4.350917 / 10 ^ 14)
      in case findroot L p (transcendental_eq epsilon_BSM) (mpf r 1.0) of
           Inl err \<Rightarrow> (Inl err, c)
         | Inr T_eq \<Rightarrow>
             (case geometric_coupling r T_eq of
                Inl err \<Rightarrow> (Inl err, c)
              | Inr G \<Rightarrow>
                  (Inr (T_eq, G),
                   c(''T_eq'' \<mapsto> T_eq, ''G'' \<mapsto> G, ''epsilon_BSM'' \<mapsto> epsilon_BSM))))"

definition calc_verify_zdc ::
    "mplib \<Rightarrow> nat \<Rightarrow> cache \<Rightarrow> (error + real \<times> real \<times> real) \<times> cache" where
  \<comment> \<open>\<open>BSMCalculator.verify_zdc\<close>; after the dictionary has been updated its prints
      format the two errors with \<open>:.2e\<close> (lines 77 and 78) and evaluate the
      significant-digit count (line 79)\<close>
  "calc_verify_zdc L p c0 =
     (let r = rnd L p;
          mu = mpf r 1836.15267343;
          alpha_inv_CODATA = mpf r 137.035999084
      in case ensure ''G'' (compute_geometric_factors L p) c0 of
           (Inl err, c) \<Rightarrow> (Inl err, c)
         | (Inr _, c) \<Rightarrow>
             (case c ''G'' of
                None \<Rightarrow> (Inl (KeyError ''G''), c)
              | Some G \<Rightarrow>
                  (let alpha_inv_pred = mp_mul r mu G;
                       err = mp_abs r (mp_sub r alpha_inv_pred alpha_inv_CODATA)
                   in case mp_div r err alpha_inv_CODATA of
                        Inl ex \<Rightarrow> (Inl ex, c)
                      | Inr rel_error \<Rightarrow>
                          (let c' = c(''mu'' \<mapsto> mu,
                                      ''alpha_inv_pred'' \<mapsto> alpha_inv_pred,
                                      ''alpha_inv_CODATA'' \<mapsto> alpha_inv_CODATA,
                                      ''zdc_error'' \<mapsto> err,
                                      ''zdc_rel_error'' \<mapsto> rel_error)
                           in case bind_err (fmt L ''.2e'' err) (\<lambda>_.
                                   bind_err (fmt L ''.2e'' rel_error) (\<lambda>_.
                                   significant_digits L p rel_error)) of
                                Inl ex \<Rightarrow> (Inl ex, c')
                              | Inr _ \<Rightarrow>
                                  (Inr (alpha_inv_pred, alpha_inv_CODATA, err), c')))))"

definition calc_qcd_scale :: "rounding \<Rightarrow> rounding \<Rightarrow> real \<Rightarrow> error + real \<times> real \<times> real" where
  \<comment> \<open>lines 88 to 106 of \<open>compute_qcd_scale\<close>: \<open>(C_gyro, Lambda_QCD_bare, Lambda_QCD_1GeV)\<close>
      from the cached \<open>alpha_inv_pred\<close>\<close>
  "calc_qcd_scale r fl alpha_inv_pred =
     (let m_e_eV = mpf r 510998.95 in
      bind_err (mp_div r 1 alpha_inv_pred) (\<lambda>alpha.
      let sqrt2 = mp_sqrt r 2;
          N_c = 3;
          gamma_mean = mpf r 2.14
      in bind_err (mp_div r 1 (mp_mul r 2 sqrt2)) (\<lambda>a.
         bind_err (mp_div r (mp_sub r (mp_e r) 1) (mp_add r (mp_e r) 1)) (\<lambda>b.
         bind_err (log_term r) (\<lambda>l.
         bind_err (mp_div r (mp_mul r a b) l) (\<lambda>C_gyro0.
         let C_gyro = mp_mul r C_gyro0 (mp_mul r (fl ((N_c ^ 2 - 1) / (2 * N_c))) gamma_mean) in
         bind_err (mp_div r m_e_eV alpha) (\<lambda>q.
         bind_err (mp_div r (mp_mul r q C_gyro) (10 ^ 6)) (\<lambda>Lambda_QCD_bare.
         let b0 = fl ((11 * N_c - 2 * 3) / 3) in
         bind_err (mp_div r (mp_mul r 2 (mp_pi r)) (fl (b0 * 2))) (\<lambda>x.
         let Lambda_QCD_1GeV = mp_mul r Lambda_QCD_bare (mp_exp r x) in
         Inr (C_gyro, Lambda_QCD_bare, Lambda_QCD_1GeV))))))))))"

definition compute_qcd_scale :: "mplib \<Rightarrow> nat \<Rightarrow> cache \<Rightarrow> (error + real) \<times> cache" where
  "compute_qcd_scale L p c0 =
     (case ensure ''alpha_inv_pred'' (calc_verify_zdc L p) c0 of
        (Inl err, c) \<Rightarrow> (Inl err, c)
      | (Inr _, c) \<Rightarrow>
          (case bind_err (lookup c ''alpha_inv_pred'') (calc_qcd_scale (rnd L p) (flt L)) of
             Inl err \<Rightarrow> (Inl err, c)
           | Inr (C_gyro, Lambda_QCD_bare, Lambda_QCD_1GeV) \<Rightarrow>
               (Inr Lambda_QCD_1GeV,
                c(''Lambda_QCD_bare'' \<mapsto> Lambda_QCD_bare,
                  ''Lambda_QCD_1GeV'' \<mapsto> Lambda_QCD_1GeV, ''C_gyro'' \<mapsto> C_gyro))))"

definition calc_substrate_mass ::
    "rounding \<Rightarrow> rounding \<Rightarrow> real \<Rightarrow> real \<Rightarrow> real \<Rightarrow> real \<Rightarrow> error + real" where
  \<comment> \<open>\<open>M_s = (hbar/c) * (pi/sqrt2) * (1/(G * T_eq))\<close> with float \<open>hbar\<close> and \<open>c\<close>\<close>
  "calc_substrate_mass r fl hbar c G T_eq =
     bind_err (float_div fl hbar c) (\<lambda>a.
     bind_err (mp_div r (mp_pi r) (mp_sqrt r 2)) (\<lambda>b.
     bind_err (mp_div r 1 (mp_mul r G T_eq)) (\<lambda>d.
     Inr (mp_mul r (mp_mul r a b) d))))"

definition compute_gravitational_constant ::
    "mplib \<Rightarrow> scipy_constants \<Rightarrow> nat \<Rightarrow> cache \<Rightarrow> (error + real \<times> real) \<times> cache" where
  \<comment> \<open>after the dictionary has been updated the prints format \<open>M_s\<close> with \<open>:.2e\<close> and
      \<open>G_pred\<close> with \<open>:.6e\<close> (lines 151 and 152)\<close>
  "compute_gravitational_constant L K p c0 =
     (let r = rnd L p; fl = flt L in
      case ensure ''G'' (compute_geometric_factors L p) c0 of
        (Inl err, c1) \<Rightarrow> (Inl err, c1)
      | (Inr _, c1) \<Rightarrow>
          (case c1 ''G'' of
             None \<Rightarrow> (Inl (KeyError ''G''), c1)
           | Some G \<Rightarrow>
               (case c1 ''T_eq'' of
                  None \<Rightarrow> (Inl (KeyError ''T_eq''), c1)
                | Some T_eq \<Rightarrow>
                    (case bind_err (calc_substrate_mass r fl (sc_hbar K) (sc_c K) G T_eq) (\<lambda>M_s.
                          bind_err (float_div fl (fl (sc_c K ^ 3)) (sc_hbar K)) (\<lambda>a.
                          bind_err (mp_div r (mp_powi r G 2) (mp_powi r M_s 2)) (\<lambda>b.
                          Inr (M_s, mp_mul r a b)))) of
                       Inl err \<Rightarrow> (Inl err, c1)
                     | Inr (M_s, G_pred) \<Rightarrow>
                         (let Gdot_over_G = mp_neg r (mpf r (0.8 / 10 ^ 12));
                              c2 = c1(''G_pred'' \<mapsto> G_pred, ''Gdot_over_G'' \<mapsto> Gdot_over_G,
                                      ''M_s'' \<mapsto> M_s)
                          in case bind_err (fmt L ''.2e'' M_s) (\<lambda>_. fmt L ''.6e'' G_pred) of
                               Inl err \<Rightarrow> (Inl err, c2)
                             | Inr _ \<Rightarrow> (Inr (G_pred, Gdot_over_G), c2))))))"

definition run_complete_analysis ::
    "mplib \<Rightarrow> scipy_constants \<Rightarrow> nat \<Rightarrow> cache \<Rightarrow> (error + cache) \<times> cache" where
  "run_complete_analysis L K p c0 =
     (case compute_geometric_factors L p c0 of
        (Inl err, c1) \<Rightarrow> (Inl err, c1)
      | (Inr _, c1) \<Rightarrow>
     (case calc_verify_zdc L p c1 of
        (Inl err, c2) \<Rightarrow> (Inl err, c2)
      | (Inr _, c2) \<Rightarrow>
     (case compute_qcd_scale L p c2 of
        (Inl err, c3) \<Rightarrow> (Inl err, c3)
      | (Inr _, c3) \<Rightarrow>
     (case compute_gravitational_constant L K p c3 of
        (Inl err, c4) \<Rightarrow> (Inl err, c4)
      | (Inr _, c4) \<Rightarrow> (Inr c4, c4)))))"

section \<open>Instances and the process-wide precision\<close>

text \<open>
  \<open>mp.mp.dps\<close> is an attribute of mpmath's one global context; both constructors assign
  it and give the new object an empty \<open>results\<close> dictionary (\<open>BSMCalculator\<close> also an empty
  \<open>constants\<close> dictionary that no method reads or writes). A world is the global
  precision and the objects made so far; an object is referred to by its position.
  A method runs on its object's dictionary under the precision the world holds at the
  time of the call.
\<close>

record world =
  dps :: nat
  objs :: "cache list"

definition BSMVerification_init :: "nat \<Rightarrow> world \<Rightarrow> nat \<times> world" where
  \<comment> \<open>\<open>BSMVerification(precision)\<close>, default 200\<close>
  "BSMVerification_init precision w =
     (length (objs w), w\<lparr>dps := precision, objs := objs w @ [Map.empty]\<rparr>)"

definition BSMCalculator_init :: "nat \<Rightarrow> world \<Rightarrow> nat \<times> world" where
  \<comment> \<open>\<open>BSMCalculator(precision)\<close>, default 100\<close>
  "BSMCalculator_init precision w =
     (length (objs w), w\<lparr>dps := precision, objs := objs w @ [Map.empty]\<rparr>)"

definition call :: "(nat \<Rightarrow> cache \<Rightarrow> 'a \<times> cache) \<Rightarrow> nat \<Rightarrow> world \<Rightarrow> 'a \<times> world" where
  \<comment> \<open>\<open>obj.method()\<close> for the object at position \<open>self\<close>\<close>
  "call method self w =
     (case method (dps w) (objs w ! self) of
        (res, c') \<Rightarrow> (res, w\<lparr>objs := (objs w)[self := c']\<rparr>))"

definition start :: world where
  \<comment> \<open>mpmath's default precision is 15 digits; no object exists yet\<close>
  "start = \<lparr>dps = 15, objs = []\<rparr>"

section \<open>Concrete libraries for examples\<close>

definition fixed_root ::
    "real \<Rightarrow> nat \<Rightarrow> (rounding \<Rightarrow> real \<Rightarrow> error + real) \<Rightarrow> real \<Rightarrow> error + real" where
  \<comment> \<open>a root finder that returns \<open>t\<close> whatever it is given\<close>
  "fixed_root t p f x0 = Inr t"

definition failing_root ::
    "nat \<Rightarrow> (rounding \<Rightarrow> real \<Rightarrow> error + real) \<Rightarrow> real \<Rightarrow> error + real" where
  \<comment> \<open>a root finder whose iteration never settles: \<open>mp.findroot\<close> raises ValueError\<close>
  "failing_root p f x0 = Inl ValueError"

definition scipy_table :: scipy_constants where
  \<comment> \<open>the doubles \<open>scipy.constants\<close> gives: \<open>c = 299792458.0\<close>, \<open>hbar\<close> printed as
      \<open>1.0545718176461565e-34\<close> and \<open>G\<close> printed as \<open>6.6743e-11\<close>, each as the exact value of
      the double\<close>
  "scipy_table =
     \<lparr>sc_c = 299792458, sc_hbar = 4932027002153229 / 2 ^ 165,
      sc_G = 1290997375656627 / 2 ^ 84\<rparr>"

definition decimal_lib :: mplib where
  \<comment> \<open>a library that rounds every result to \<open>p\<close> decimal places, to run the definitions
      under a rounding that is not the identity (mpmath itself rounds to a binary
      mantissa)\<close>
  "decimal_lib =
     \<lparr>rnd = (\<lambda>p x. of_int \<lfloor>x * 10 ^ p + 1 / 2\<rfloor> / 10 ^ p), flt = (\<lambda>x. x),
      findroot = failing_root, fmt = (\<lambda>spec x. Inr ()), int_inf = OverflowError\<rparr>"

section \<open>Values in exact arithmetic\<close>

definition C_gyro_exact :: real where
  \<comment> \<open>the product of the five sub-terms, without rounding\<close>
  "C_gyro_exact =
     1 / (2 * sqrt 2) * ((exp 1 - 1) / (exp 1 + 1)) * (1 / ln (1 + exp 1 / pi)) * (4 / 3) * 2.14"

section \<open>Keys a stage may write\<close>

text \<open>
  \<open>writes W c c'\<close>: the dictionary \<open>c'\<close> agrees with \<open>c\<close> outside the keys \<open>W\<close> and has
  lost no key of \<open>c\<close>.
\<close>

definition writes :: "string set \<Rightarrow> cache \<Rightarrow> cache \<Rightarrow> bool" where
  "writes W c c' = ((\<forall>k. k \<notin> W \<longrightarrow> c' k = c k) \<and> (\<forall>k. c k \<noteq> None \<longrightarrow> c' k \<noteq> None))"

definition keys_vte :: "string set" where
  "keys_vte = {''epsilon_BSM'', ''T_eq'', ''log_term''}"

definition keys_vgc :: "string set" where
  "keys_vgc = keys_vte \<union> {''G'', ''G_target'', ''G_error''}"

definition keys_zdc :: "string set" where
  "keys_zdc = keys_vgc \<union> {''alpha_inv_pred'', ''alpha_inv_CODATA'', ''zdc_error'', ''zdc_rel_error''}"

definition keys_qcd :: "string set" where
  "keys_qcd = keys_vgc \<union> {''C_gyro'', ''Lambda_QCD_bare'', ''Lambda_QCD_1GeV''}"

definition keys_grav :: "string set" where
  "keys_grav = keys_vgc \<union> {''M_s'', ''G_pred'', ''G_CODATA'', ''Gdot_over_G''}"

definition keys_cgf :: "string set" where
  "keys_cgf = {''T_eq'', ''G'', ''epsilon_BSM''}"

definition keys_czdc :: "string set" where
  "keys_czdc = keys_cgf \<union>
     {''mu'', ''alpha_inv_pred'', ''alpha_inv_CODATA'', ''zdc_error'', ''zdc_rel_error''}"

definition keys_cqcd :: "string set" where
  "keys_cqcd = keys_czdc \<union> {''Lambda_QCD_bare'', ''Lambda_QCD_1GeV'', ''C_gyro''}"

definition keys_cgrav :: "string set" where
  "keys_cgrav = keys_cgf \<union> {''G_pred'', ''Gdot_over_G'', ''M_s''}"

section \<open>Root finders for the examples\<close>

definition precision_root ::
    "nat \<Rightarrow> (rounding \<Rightarrow> real \<Rightarrow> error + real) \<Rightarrow> real \<Rightarrow> error + real" where
  \<comment> \<open>a root finder whose answer depends on the working precision\<close>
  "precision_root p f x0 = Inr (1.614 + 1 / 10 ^ p)"

section \<open>Dictionaries for the examples\<close>

definition matching_cache :: cache where
  \<comment> \<open>upstream values for which the prediction is the CODATA literal\<close>
  "matching_cache =
     [''G'' \<mapsto> 137.035999084 / 1836.15267343, ''alpha_inv_pred'' \<mapsto> 137.035999084]"

section \<open>The value a key can hold\<close>

text \<open>
  For a fixed library and precision every key has one value it can ever be given:
  \<open>canon_verification\<close> and \<open>canon_calculator\<close> list it for each key of the two classes
  (\<open>Inl\<close> when the computation of the value raises, so that the key is never written).
  A dictionary is \<open>settled\<close> when every entry holds that value; \<open>kept c c'\<close> says that
  \<open>c'\<close> has every key of \<open>c\<close>.
\<close>

definition root :: "mplib \<Rightarrow> nat \<Rightarrow> error + real" where
  "root L p =
     findroot L p (transcendental_eq (mpf (rnd L p) (4.350917 / 10 ^ 14))) (mpf (rnd L p) 1.0)"

definition gravitational_values :: "rounding \<Rightarrow> real \<Rightarrow> real \<Rightarrow> error + real \<times> real" where
  "gravitational_values r G T_eq =
     (let c = mpf r 299792458; hbar = mpf r (1.054571817 / 10 ^ 34) in
      bind_err (substrate_mass r hbar c G T_eq) (\<lambda>M_s.
      bind_err (mp_div r (mp_powi r c 3) hbar) (\<lambda>a.
      bind_err (mp_div r (mp_powi r G 2) (mp_powi r M_s 2)) (\<lambda>b.
      Inr (M_s, mp_mul r a b)))))"

definition calc_gravitational_values ::
    "rounding \<Rightarrow> rounding \<Rightarrow> scipy_constants \<Rightarrow> real \<Rightarrow> real \<Rightarrow> error + real \<times> real" where
  "calc_gravitational_values r fl K G T_eq =
     bind_err (calc_substrate_mass r fl (sc_hbar K) (sc_c K) G T_eq) (\<lambda>M_s.
     bind_err (float_div fl (fl (sc_c K ^ 3)) (sc_hbar K)) (\<lambda>a.
     bind_err (mp_div r (mp_powi r G 2) (mp_powi r M_s 2)) (\<lambda>b.
     Inr (M_s, mp_mul r a b))))"

definition canon_verification :: "mplib \<Rightarrow> nat \<Rightarrow> string \<Rightarrow> error + real" where
  "canon_verification L p k =
     (let r = rnd L p;
          G = bind_err (root L p) (geometric_coupling r);
          G_target = mpf r 0.074660340411;
          pred = (\<lambda>G. mp_mul r (mpf r 1836.15267343) G);
          cod = mpf r 137.035999084;
          err = (\<lambda>G. mp_abs r (mp_sub r (pred G) cod));
          qcd = qcd_scale r (flt L);
          grav = bind_err (root L p) (\<lambda>T. bind_err (geometric_coupling r T) (\<lambda>G.
                   gravitational_values r G T))
      in if k = ''epsilon_BSM'' then Inr (mpf r (4.350917 / 10 ^ 14))
         else if k = ''T_eq'' then root L p
         else if k = ''log_term'' then log_term r
         else if k = ''G'' then G
         else if k = ''G_target'' then Inr G_target
         else if k = ''G_error'' then bind_err G (\<lambda>G. Inr (mp_abs r (mp_sub r G G_target)))
         else if k = ''alpha_inv_pred'' then bind_err G (\<lambda>G. Inr (pred G))
         else if k = ''alpha_inv_CODATA'' then Inr cod
         else if k = ''zdc_error'' then bind_err G (\<lambda>G. Inr (err G))
         else if k = ''zdc_rel_error'' then bind_err G (\<lambda>G. mp_div r (err G) cod)
         else if k = ''C_gyro'' then bind_err qcd (\<lambda>(C, B, E). Inr C)
         else if k = ''Lambda_QCD_bare'' then bind_err qcd (\<lambda>(C, B, E). Inr B)
         else if k = ''Lambda_QCD_1GeV'' then bind_err qcd (\<lambda>(C, B, E). Inr E)
         else if k = ''M_s'' then bind_err grav (\<lambda>(M_s, G_pred). Inr M_s)
         else if k = ''G_pred'' then bind_err grav (\<lambda>(M_s, G_pred). Inr G_pred)
         else if k = ''G_CODATA'' then Inr (mpf r (6.67430 / 10 ^ 11))
         else if k = ''Gdot_over_G'' then Inr (mp_neg r (mpf r (0.8 / 10 ^ 12)))
         else Inl (KeyError k))"

definition canon_calculator :: "mplib \<Rightarrow> scipy_constants \<Rightarrow> nat \<Rightarrow> string \<Rightarrow> error + real" where
  "canon_calculator L K p k =
     (let r = rnd L p;
          G = bind_err (root L p) (geometric_coupling r);
          pred = (\<lambda>G. mp_mul r (mpf r 1836.15267343) G);
          cod = mpf r 137.035999084;
          err = (\<lambda>G. mp_abs r (mp_sub r (pred G) cod));
          qcd = bind_err G (\<lambda>G. calc_qcd_scale r (flt L) (pred G));
          grav = bind_err (root L p) (\<lambda>T. bind_err (geometric_coupling r T) (\<lambda>G.
                   calc_gravitational_values r (flt L) K G T))
      in if k = ''T_eq'' then root L p
         else if k = ''G'' then G
         else if k = ''epsilon_BSM'' then Inr (mpf r (4.350917 / 10 ^ 14))
         else if k = ''mu'' then Inr (mpf r 1836.15267343)
         else if k = ''alpha_inv_pred'' then bind_err G (\<lambda>G. Inr (pred G))
         else if k = ''alpha_inv_CODATA'' then Inr cod
         else if k = ''zdc_error'' then bind_err G (\<lambda>G. Inr (err G))
         else if k = ''zdc_rel_error'' then bind_err G (\<lambda>G. mp_div r (err G) cod)
         else if k = ''Lambda_QCD_bare'' then bind_err qcd (\<lambda>(C, B, E). Inr B)
         else if k = ''Lambda_QCD_1GeV'' then bind_err qcd (\<lambda>(C, B, E). Inr E)
         else if k = ''C_gyro'' then bind_err qcd (\<lambda>(C, B, E). Inr C)
         else if k = ''G_pred'' then bind_err grav (\<lambda>(M_s, G_pred). Inr G_pred)
         else if k = ''Gdot_over_G'' then Inr (mp_neg r (mpf r (0.8 / 10 ^ 12)))
         else if k = ''M_s'' then bind_err grav (\<lambda>(M_s, G_pred). Inr M_s)
         else Inl (KeyError k))"

definition settled :: "(string \<Rightarrow> error + real) \<Rightarrow> cache \<Rightarrow> bool" where
  "settled canon c = (\<forall>k v. c k = Some v \<longrightarrow> canon k = Inr v)"

definition kept :: "cache \<Rightarrow> cache \<Rightarrow> bool" where
  "kept c c' = (\<forall>k. c k \<noteq> None \<longrightarrow> c' k \<noteq> None)"

section \<open>Sequences of method calls on one instance\<close>

text \<open>
  A caller may invoke the public methods in any order and go on after an exception; only
  the dictionary is carried from one call to the next.
\<close>

datatype verification_method =
    Verify_transcendental_equation | Verify_geometric_coupling | Verify_zdc
  | Verify_qcd_scale | Verify_gravitational_constant | Run_all_verifications

fun invoke_verification :: "mplib \<Rightarrow> nat \<Rightarrow> verification_method \<Rightarrow> cache \<Rightarrow> cache" where
  "invoke_verification L p Verify_transcendental_equation c =
     snd (verify_transcendental_equation L p c)"
| "invoke_verification L p Verify_geometric_coupling c = snd (verify_geometric_coupling L p c)"
| "invoke_verification L p Verify_zdc c = snd (verify_zdc L p c)"
| "invoke_verification L p Verify_qcd_scale c = snd (verify_qcd_scale L p c)"
| "invoke_verification L p Verify_gravitational_constant c =
     snd (verify_gravitational_constant L p c)"
| "invoke_verification L p Run_all_verifications c = snd (run_all_verifications L p c)"

datatype calculator_method =
    Compute_geometric_factors | Calc_verify_zdc | Compute_qcd_scale
  | Compute_gravitational_constant | Run_complete_analysis

fun invoke_calculator ::
    "mplib \<Rightarrow> scipy_constants \<Rightarrow> nat \<Rightarrow> calculator_method \<Rightarrow> cache \<Rightarrow> cache" where
  "invoke_calculator L K p Compute_geometric_factors c = snd (compute_geometric_factors L p c)"
| "invoke_calculator L K p Calc_verify_zdc c = snd (calc_verify_zdc L p c)"
| "invoke_calculator L K p Compute_qcd_scale c = snd (compute_qcd_scale L p c)"
| "invoke_calculator L K p Compute_gravitational_constant c =
     snd (compute_gravitational_constant L K p c)"
| "invoke_calculator L K p Run_complete_analysis c = snd (run_complete_analysis L K p c)"

section \<open>Facts about exact arithmetic\<close>

lemma exact_lib_sel [simp]:
  "rnd (exact_lib S) p = (\<lambda>x. x)" "flt (exact_lib S) = (\<lambda>x. x)" "findroot (exact_lib S) = S"
  "fmt (exact_lib S) spec x = Inr ()" "int_inf (exact_lib S) = OverflowError"
  by (simp_all add: exact_lib_def)

lemmas mp_defs = mpf_def mp_e_def mp_pi_def mp_sqrt_def mp_add_def mp_sub_def mp_mul_def
  mp_neg_def mp_abs_def mp_powi_def mp_exp_def mp_div_def mp_log_def mp_pow_def float_div_def

lemma log_term_exact: "log_term (\<lambda>x. x) = Inr (ln (1 + exp 1 / pi))"
  by (simp add: log_term_def bind_err_def mp_defs add_pos_pos)

lemma epsilon_BSM_derived_exact: "\<exists>v. epsilon_BSM_derived (\<lambda>x. x) = Inr v"
  by (simp add: epsilon_BSM_derived_def bind_err_def mp_defs Let_def)

lemma geometric_coupling_exact:
  "geometric_coupling (\<lambda>x. x) T =
     (if T = 0 then Inl ZeroDivisionError else Inr (1 / (exp 1 * pi * sqrt 2 * T)))"
  by (simp add: geometric_coupling_def mp_defs)

section \<open>What each stage does to the dictionary\<close>

lemma bind_err_Inr: "bind_err m k = Inr y \<longleftrightarrow> (\<exists>x. m = Inr x \<and> k x = Inr y)"
  by (cases m) (auto simp: bind_err_def)

lemma ensure_present: "c k \<noteq> None \<Longrightarrow> ensure k up c = (Inr (), c)"
  by (auto simp: ensure_def)

lemma vte_Inl: "verify_transcendental_equation L p c = (Inl err, c') \<Longrightarrow> c' = c"
  by (auto simp: verify_transcendental_equation_def Let_def split: sum.splits)

lemma vte_Inr:
  "verify_transcendental_equation L p c = (Inr (T, eps), c') \<Longrightarrow>
     eps = mpf (rnd L p) (4.350917 / 10 ^ 14) \<and>
     findroot L p (transcendental_eq eps) (mpf (rnd L p) 1.0) = Inr T \<and>
     (\<exists>lt. log_term (rnd L p) = Inr lt \<and>
        c' = c(''epsilon_BSM'' \<mapsto> eps, ''T_eq'' \<mapsto> T, ''log_term'' \<mapsto> lt))"
  by (auto simp: verify_transcendental_equation_def Let_def split: sum.splits)

lemma vgc_Inl: "verify_geometric_coupling L p c = (Inl err, c') \<Longrightarrow> c' ''G'' = c ''G''"
  by (auto simp: verify_geometric_coupling_def ensure_def Let_def
      split: sum.splits prod.splits option.splits if_splits dest!: vte_Inl vte_Inr)

lemma vgc_Inr: "verify_geometric_coupling L p c = (Inr G, c') \<Longrightarrow> c' ''G'' = Some G"
  by (auto simp: verify_geometric_coupling_def Let_def
      split: sum.splits prod.splits option.splits)

lemma ensure_G_vgc:
  "ensure ''G'' (verify_geometric_coupling L p) c0 = (res, c) \<Longrightarrow>
     (res = Inr () \<and> c ''G'' \<noteq> None) \<or> ((\<exists>err. res = Inl err) \<and> c ''G'' = None)"
  by (auto simp: ensure_def split: if_splits sum.splits prod.splits dest: vgc_Inl vgc_Inr)

lemma cgf_Inl: "compute_geometric_factors L p c = (Inl err, c') \<Longrightarrow> c' = c"
  by (auto simp: compute_geometric_factors_def Let_def split: sum.splits)

lemma cgf_Inr:
  "compute_geometric_factors L p c = (Inr (T, G), c') \<Longrightarrow>
     findroot L p (transcendental_eq (mpf (rnd L p) (4.350917 / 10 ^ 14))) (mpf (rnd L p) 1.0)
       = Inr T \<and>
     geometric_coupling (rnd L p) T = Inr G \<and>
     c' = c(''T_eq'' \<mapsto> T, ''G'' \<mapsto> G,
            ''epsilon_BSM'' \<mapsto> mpf (rnd L p) (4.350917 / 10 ^ 14))"
  by (auto simp: compute_geometric_factors_def Let_def split: sum.splits)

lemma ensure_G_cgf:
  "ensure ''G'' (compute_geometric_factors L p) c0 = (res, c) \<Longrightarrow>
     (res = Inr () \<and> c ''G'' \<noteq> None) \<or> ((\<exists>err. res = Inl err) \<and> c ''G'' = None)"
  by (auto simp: ensure_def split: if_splits sum.splits prod.splits dest!: cgf_Inl cgf_Inr)

section \<open>Runs in exact arithmetic\<close>

lemma vte_exact:
  "verify_transcendental_equation (exact_lib S) p c =
     (case S p (transcendental_eq (4.350917 / 10 ^ 14)) 1 of
        Inl err \<Rightarrow> (Inl err, c)
      | Inr T \<Rightarrow> (Inr (T, 4.350917 / 10 ^ 14),
                  c(''epsilon_BSM'' \<mapsto> 4.350917 / 10 ^ 14, ''T_eq'' \<mapsto> T,
                    ''log_term'' \<mapsto> ln (1 + exp 1 / pi))))"
proof -
  obtain v where "epsilon_BSM_derived (\<lambda>x. x) = Inr v"
    using epsilon_BSM_derived_exact by blast
  then show ?thesis
    by (simp add: verify_transcendental_equation_def log_term_exact mpf_def Let_def
        split: sum.splits)
qed

lemma vgc_exact_fresh:
  assumes "c ''T_eq'' = None"
  shows "verify_geometric_coupling (exact_lib S) p c =
     (case S p (transcendental_eq (4.350917 / 10 ^ 14)) 1 of
        Inl err \<Rightarrow> (Inl err, c)
      | Inr T \<Rightarrow>
          (if T = 0
           then (Inl ZeroDivisionError,
                 c(''epsilon_BSM'' \<mapsto> 4.350917 / 10 ^ 14, ''T_eq'' \<mapsto> T,
                   ''log_term'' \<mapsto> ln (1 + exp 1 / pi)))
           else (Inr (1 / (exp 1 * pi * sqrt 2 * T)),
                 c(''epsilon_BSM'' \<mapsto> 4.350917 / 10 ^ 14, ''T_eq'' \<mapsto> T,
                   ''log_term'' \<mapsto> ln (1 + exp 1 / pi),
                   ''G'' \<mapsto> 1 / (exp 1 * pi * sqrt 2 * T),
                   ''G_target'' \<mapsto> 0.074660340411,
                   ''G_error'' \<mapsto> \<bar>1 / (exp 1 * pi * sqrt 2 * T) - 0.074660340411\<bar>))))"
  using assms
  by (simp add: verify_geometric_coupling_def ensure_def vte_exact geometric_coupling_exact
      mpf_def mp_abs_def mp_sub_def Let_def split: sum.splits)

lemma cgf_exact:
  "compute_geometric_factors (exact_lib S) p c =
     (case S p (transcendental_eq (4.350917 / 10 ^ 14)) 1 of
        Inl err \<Rightarrow> (Inl err, c)
      | Inr T \<Rightarrow>
          (if T = 0 then (Inl ZeroDivisionError, c)
           else (Inr (T, 1 / (exp 1 * pi * sqrt 2 * T)),
                 c(''T_eq'' \<mapsto> T, ''G'' \<mapsto> 1 / (exp 1 * pi * sqrt 2 * T),
                   ''epsilon_BSM'' \<mapsto> 4.350917 / 10 ^ 14))))"
  by (simp add: compute_geometric_factors_def geometric_coupling_exact mpf_def Let_def
      split: sum.splits)

section \<open>The Zero-Discrepancy Comparison\<close>

text \<open>
  Under any rounding that does not take 137.035999084 to zero, the stored prediction and
  relative error are the source's formulas with every operation rounded.
\<close>

lemma zdc_rounded:
  assumes "snd (verify_zdc L p c0) ''G'' = Some G"
    and "mpf (rnd L p) 137.035999084 \<noteq> 0"
  shows "snd (verify_zdc L p c0) ''alpha_inv_pred''
           = Some (mp_mul (rnd L p) (mpf (rnd L p) 1836.15267343) G)"
    and "snd (verify_zdc L p c0) ''zdc_rel_error''
           = Some (rnd L p
               (mp_abs (rnd L p) (mp_sub (rnd L p)
                  (mp_mul (rnd L p) (mpf (rnd L p) 1836.15267343) G)
                  (mpf (rnd L p) 137.035999084))
                / mpf (rnd L p) 137.035999084))"
proof -
  obtain res c where e: "ensure ''G'' (verify_geometric_coupling L p) c0 = (res, c)"
    by (cases "ensure ''G'' (verify_geometric_coupling L p) c0")
  from ensure_G_vgc [OF e] assms e
  have g: "res = Inr () \<and> c ''G'' = Some G"
    by (auto simp: verify_zdc_def Let_def mp_div_def split: option.splits)
  with e assms(2)
  show "snd (verify_zdc L p c0) ''alpha_inv_pred''
           = Some (mp_mul (rnd L p) (mpf (rnd L p) 1836.15267343) G)"
    and "snd (verify_zdc L p c0) ''zdc_rel_error''
           = Some (rnd L p
               (mp_abs (rnd L p) (mp_sub (rnd L p)
                  (mp_mul (rnd L p) (mpf (rnd L p) 1836.15267343) G)
                  (mpf (rnd L p) 137.035999084))
                / mpf (rnd L p) 137.035999084))"
    by (simp_all add: verify_zdc_def Let_def mp_div_def)
qed

lemma calc_zdc_rounded:
  assumes "snd (calc_verify_zdc L p c0) ''G'' = Some G"
    and "mpf (rnd L p) 137.035999084 \<noteq> 0"
  shows "snd (calc_verify_zdc L p c0) ''alpha_inv_pred''
           = Some (mp_mul (rnd L p) (mpf (rnd L p) 1836.15267343) G)"
    and "snd (calc_verify_zdc L p c0) ''zdc_rel_error''
           = Some (rnd L p
               (mp_abs (rnd L p) (mp_sub (rnd L p)
                  (mp_mul (rnd L p) (mpf (rnd L p) 1836.15267343) G)
                  (mpf (rnd L p) 137.035999084))
                / mpf (rnd L p) 137.035999084))"
proof -
  obtain res c where e: "ensure ''G'' (compute_geometric_factors L p) c0 = (res, c)"
    by (cases "ensure ''G'' (compute_geometric_factors L p) c0")
  have g: "res = Inr () \<and> c ''G'' = Some G"
  proof (rule disjE [OF ensure_G_cgf [OF e]])
    assume "res = Inr () \<and> c ''G'' \<noteq> None"
    then obtain g where g: "res = Inr ()" "c ''G'' = Some g" by auto
    with e assms have "g = G"
      by (simp add: calc_verify_zdc_def Let_def mp_div_def split: sum.splits)
    with g show ?thesis by simp
  next
    assume "(\<exists>err. res = Inl err) \<and> c ''G'' = None"
    with e assms show ?thesis
      by (auto simp: calc_verify_zdc_def Let_def)
  qed
  with e assms(2)
  show "snd (calc_verify_zdc L p c0) ''alpha_inv_pred''
           = Some (mp_mul (rnd L p) (mpf (rnd L p) 1836.15267343) G)"
    and "snd (calc_verify_zdc L p c0) ''zdc_rel_error''
           = Some (rnd L p
               (mp_abs (rnd L p) (mp_sub (rnd L p)
                  (mp_mul (rnd L p) (mpf (rnd L p) 1836.15267343) G)
                  (mpf (rnd L p) 137.035999084))
                / mpf (rnd L p) 137.035999084))"
    by (simp_all add: calc_verify_zdc_def Let_def mp_div_def split: sum.splits)
qed

lemma zdc_exact_G:
  assumes "snd (verify_zdc (exact_lib S) p c0) ''G'' = Some G"
  shows "snd (verify_zdc (exact_lib S) p c0) ''alpha_inv_pred'' = Some (1836.15267343 * G)"
    and "snd (verify_zdc (exact_lib S) p c0) ''zdc_rel_error'' =
          Some (\<bar>1836.15267343 * G - 137.035999084\<bar> / 137.035999084)"
proof -
  obtain res c where e: "ensure ''G'' (verify_geometric_coupling (exact_lib S) p) c0 = (res, c)"
    by (cases "ensure ''G'' (verify_geometric_coupling (exact_lib S) p) c0")
  from ensure_G_vgc[OF e] assms e
  have g: "res = Inr () \<and> c ''G'' = Some G"
    by (auto simp: verify_zdc_def Let_def mp_defs split: option.splits)
  with e show "snd (verify_zdc (exact_lib S) p c0) ''alpha_inv_pred'' = Some (1836.15267343 * G)"
    and "snd (verify_zdc (exact_lib S) p c0) ''zdc_rel_error'' =
          Some (\<bar>1836.15267343 * G - 137.035999084\<bar> / 137.035999084)"
    by (simp_all add: verify_zdc_def Let_def mp_defs)
qed

lemma calc_zdc_exact_G:
  assumes "snd (calc_verify_zdc (exact_lib S) p c0) ''G'' = Some G"
  shows "snd (calc_verify_zdc (exact_lib S) p c0) ''alpha_inv_pred'' = Some (1836.15267343 * G)"
    and "snd (calc_verify_zdc (exact_lib S) p c0) ''zdc_rel_error'' =
          Some (\<bar>1836.15267343 * G - 137.035999084\<bar> / 137.035999084)"
proof -
  let ?L = "exact_lib S"
  obtain res c where e: "ensure ''G'' (compute_geometric_factors ?L p) c0 = (res, c)"
    by (cases "ensure ''G'' (compute_geometric_factors ?L p) c0")
  have "res = Inr () \<and> c ''G'' = Some G"
  proof (rule disjE [OF ensure_G_cgf [OF e]])
    assume "res = Inr () \<and> c ''G'' \<noteq> None"
    then obtain g where g: "res = Inr ()" "c ''G'' = Some g" by auto
    with e assms have "g = G"
      by (simp add: calc_verify_zdc_def Let_def mp_defs split: sum.splits)
    with g show ?thesis by simp
  next
    assume "(\<exists>err. res = Inl err) \<and> c ''G'' = None"
    with e assms show ?thesis
      by (auto simp: calc_verify_zdc_def Let_def)
  qed
  with e show "snd (calc_verify_zdc ?L p c0) ''alpha_inv_pred'' = Some (1836.15267343 * G)"
    and "snd (calc_verify_zdc ?L p c0) ''zdc_rel_error'' =
          Some (\<bar>1836.15267343 * G - 137.035999084\<bar> / 137.035999084)"
    by (simp_all add: calc_verify_zdc_def Let_def mp_defs split: sum.splits)
qed

lemma decimal_lib_rnd:
  "rnd decimal_lib p x = of_int \<lfloor>x * 10 ^ p + 1 / 2\<rfloor> / 10 ^ p"
  by (simp add: decimal_lib_def)

text \<open>
  Claim C1. For every library (any rounding, any root finder), every precision and every
  starting dictionary, in both classes: whenever the geometric coupling \<open>G\<close> is in the
  dictionary after a run of the Zero-Discrepancy stage, the stored \<open>alpha_inv_pred\<close> is the
  library's product of the literal \<open>1836.15267343\<close> with \<open>G\<close>, and the stored
  \<open>zdc_rel_error\<close> is the library's quotient of \<open>|alpha_inv_pred - 137.035999084|\<close> by
  \<open>137.035999084\<close>, each operation rounded once at the working precision. A run that
  leaves no \<open>G\<close> in the dictionary is one whose upstream stage raised. The hypothesis says
  that the literal \<open>137.035999084\<close> is not rounded to zero. In exact arithmetic the two
  values are \<open>1836.15267343 * G\<close> and \<open>|1836.15267343 * G - 137.035999084| / 137.035999084\<close>
  (\<open>zdc_exact_G\<close>, \<open>calc_zdc_exact_G\<close>).
\<close>

theorem zdc_stores_prediction_and_relative_error:
  assumes "mpf (rnd L p) 137.035999084 \<noteq> 0"
  shows
  "(snd (verify_zdc L p c) ''G'' = Some G \<longrightarrow>
      snd (verify_zdc L p c) ''alpha_inv_pred''
        = Some (mp_mul (rnd L p) (mpf (rnd L p) 1836.15267343) G) \<and>
      snd (verify_zdc L p c) ''zdc_rel_error''
        = Some (rnd L p
            (mp_abs (rnd L p) (mp_sub (rnd L p)
               (mp_mul (rnd L p) (mpf (rnd L p) 1836.15267343) G)
               (mpf (rnd L p) 137.035999084))
             / mpf (rnd L p) 137.035999084))) \<and>
   (snd (calc_verify_zdc L p c) ''G'' = Some G \<longrightarrow>
      snd (calc_verify_zdc L p c) ''alpha_inv_pred''
        = Some (mp_mul (rnd L p) (mpf (rnd L p) 1836.15267343) G) \<and>
      snd (calc_verify_zdc L p c) ''zdc_rel_error''
        = Some (rnd L p
            (mp_abs (rnd L p) (mp_sub (rnd L p)
               (mp_mul (rnd L p) (mpf (rnd L p) 1836.15267343) G)
               (mpf (rnd L p) 137.035999084))
             / mpf (rnd L p) 137.035999084)))"
  using zdc_rounded [of L p c G] calc_zdc_rounded [of L p c G] assms by blast

text \<open>
  Two runs: one under a rounding to twelve decimal places from a dictionary that holds
  \<open>G = 0.074660340411\<close>, where the product \<open>137.08778364485153...\<close> is stored rounded, and
  one in exact arithmetic on a fresh instance.
\<close>

theorem zdc_stores_prediction_and_relative_error_witness:
  "mpf (rnd decimal_lib 12) 137.035999084 \<noteq> 0 \<and>
   snd (verify_zdc decimal_lib 12 [''G'' \<mapsto> 0.074660340411]) ''G''
     = Some 0.074660340411 \<and>
   snd (verify_zdc decimal_lib 12 [''G'' \<mapsto> 0.074660340411]) ''alpha_inv_pred''
     = Some 137.087783644852 \<and>
   snd (verify_zdc decimal_lib 12 [''G'' \<mapsto> 0.074660340411]) ''zdc_rel_error''
     = Some 0.000377890198 \<and>
   snd (calc_verify_zdc decimal_lib 12 [''G'' \<mapsto> 0.074660340411]) ''G''
     = Some 0.074660340411 \<and>
   snd (calc_verify_zdc decimal_lib 12 [''G'' \<mapsto> 0.074660340411]) ''alpha_inv_pred''
     = Some 137.087783644852 \<and>
   snd (calc_verify_zdc decimal_lib 12 [''G'' \<mapsto> 0.074660340411]) ''zdc_rel_error''
     = Some 0.000377890198 \<and>
   snd (verify_zdc (exact_lib (fixed_root 1.614)) 100 Map.empty) ''G''
     = Some (1 / (exp 1 * pi * sqrt 2 * 1.614)) \<and>
   snd (verify_zdc (exact_lib (fixed_root 1.614)) 100 Map.empty) ''alpha_inv_pred''
     = Some (1836.15267343 * (1 / (exp 1 * pi * sqrt 2 * 1.614))) \<and>
   snd (calc_verify_zdc (exact_lib (fixed_root 1.614)) 100 Map.empty) ''G''
     = Some (1 / (exp 1 * pi * sqrt 2 * 1.614)) \<and>
   snd (calc_verify_zdc (exact_lib (fixed_root 1.614)) 100 Map.empty) ''zdc_rel_error''
     = Some (\<bar>1836.15267343 * (1 / (exp 1 * pi * sqrt 2 * 1.614)) - 137.035999084\<bar>
             / 137.035999084)"
proof -
  let ?c = "[''G'' \<mapsto> 0.074660340411 :: real]"
  let ?E = "exact_lib (fixed_root 1.614)"
  let ?g = "1 / (exp 1 * pi * sqrt 2 * 1.614) :: real"
  have h: "mpf (rnd decimal_lib 12) 137.035999084 \<noteq> 0"
    by (simp add: mpf_def decimal_lib_rnd)
  have g1: "snd (verify_zdc decimal_lib 12 ?c) ''G'' = Some 0.074660340411"
    by (simp add: verify_zdc_def ensure_def Let_def mp_defs decimal_lib_rnd)
  have g2: "snd (calc_verify_zdc decimal_lib 12 ?c) ''G'' = Some 0.074660340411"
    by (simp add: calc_verify_zdc_def ensure_def Let_def mp_defs decimal_lib_rnd
        split: sum.splits)
  have v1: "mp_mul (rnd decimal_lib 12) (mpf (rnd decimal_lib 12) 1836.15267343) 0.074660340411
      = 137.087783644852"
    by (simp add: mp_defs decimal_lib_rnd)
  have v2: "rnd decimal_lib 12
      (mp_abs (rnd decimal_lib 12) (mp_sub (rnd decimal_lib 12) 137.087783644852
         (mpf (rnd decimal_lib 12) 137.035999084)) / mpf (rnd decimal_lib 12) 137.035999084)
      = 0.000377890198"
    by (simp add: mp_defs decimal_lib_rnd)
  have h': "mpf (rnd ?E 100) 137.035999084 \<noteq> 0"
    by (simp add: mpf_def)
  have e1: "snd (verify_zdc ?E 100 Map.empty) ''G'' = Some ?g"
    by (simp add: verify_zdc_def ensure_def vgc_exact_fresh fixed_root_def mp_defs Let_def)
  have e2: "snd (calc_verify_zdc ?E 100 Map.empty) ''G'' = Some ?g"
    by (simp add: calc_verify_zdc_def ensure_def cgf_exact fixed_root_def mp_defs Let_def
        split: sum.splits)
  note d = zdc_stores_prediction_and_relative_error [OF h, of ?c "0.074660340411", unfolded v1 v2]
  note e = zdc_stores_prediction_and_relative_error [OF h', of Map.empty ?g]
  from e e1 e2 have e': 
    "snd (verify_zdc ?E 100 Map.empty) ''alpha_inv_pred'' = Some (1836.15267343 * ?g) \<and>
     snd (calc_verify_zdc ?E 100 Map.empty) ''zdc_rel_error''
       = Some (\<bar>1836.15267343 * ?g - 137.035999084\<bar> / 137.035999084)"
    by (simp add: mp_defs)
  from d g1 g2 h e1 e2 e' show ?thesis by blast
qed

section \<open>Bounds on the constants\<close>

lemma exp1_ge_2: "2 \<le> exp (1::real)"
  using exp_ge_add_one_self [of "1::real"] by simp

lemma pi_ge_3: "3 \<le> pi"
proof -
  have "sin (pi / 6) \<le> pi / 6"
    by (rule sin_x_le_x) simp
  then show ?thesis by (simp add: sin_30)
qed

lemma sqrt2_ge: "7 / 5 \<le> sqrt 2"
  by (rule real_le_rsqrt) (simp add: power2_eq_square)

lemma epi_sqrt2_ge: "42 / 5 \<le> exp 1 * pi * sqrt 2"
proof -
  have "2 * 3 \<le> exp 1 * pi"
    by (rule mult_mono) (use exp1_ge_2 pi_ge_3 in simp_all)
  then have "(2 * 3) * (7 / 5) \<le> (exp 1 * pi) * sqrt 2"
    by (rule mult_mono) (use sqrt2_ge in simp_all)
  then show ?thesis by simp
qed

lemma prediction_below_CODATA:
  "1836.15267343 * (1 / (exp 1 * pi * sqrt 2 * 1.614)) < (137.035999084::real)"
proof -
  have pos: "0 < exp 1 * pi * sqrt 2 * 1.614"
    by simp
  have "1836.15267343 < 137.035999084 * ((42 / 5) * 1.614 :: real)"
    by simp
  also have "\<dots> \<le> 137.035999084 * (exp 1 * pi * sqrt 2 * 1.614)"
    using epi_sqrt2_ge by (simp add: mult.commute mult.left_commute)
  finally show ?thesis
    using pos by (simp add: field_simps)
qed

lemma ln_term_pos: "0 < ln (1 + exp 1 / pi)"
  by (rule ln_gt_zero) simp

lemma exp1_plus_1: "exp (1::real) + 1 \<noteq> 0" "0 < exp (1::real) + 1"
  using exp_gt_zero [of "1::real"] by linarith+

lemma C_gyro_exact_pos: "0 < C_gyro_exact"
  unfolding C_gyro_exact_def
  by (intro mult_pos_pos divide_pos_pos ln_term_pos) (simp_all add: add_pos_pos)

section \<open>The stages in exact arithmetic\<close>

lemma gyro_terms_exact:
  "gyro_terms (\<lambda>x. x) (\<lambda>x. x) =
     Inr (1 / (2 * sqrt 2), (exp 1 - 1) / (exp 1 + 1), 1 / ln (1 + exp 1 / pi), 4 / 3, 2.14)"
  using ln_term_pos exp1_plus_1
  by (simp add: gyro_terms_def log_term_exact bind_err_def mp_defs Let_def)

lemma qcd_scale_exact:
  "qcd_scale (\<lambda>x. x) (\<lambda>x. x) =
     Inr (C_gyro_exact,
          510998.95 * 137.035999084 * C_gyro_exact / 10 ^ 6,
          510998.95 * 137.035999084 * C_gyro_exact / 10 ^ 6 * exp (- (2 * pi / 11)))"
  by (simp add: qcd_scale_def gyro_terms_exact bind_err_def mp_defs Let_def C_gyro_exact_def)

lemma calc_qcd_scale_exact:
  "calc_qcd_scale (\<lambda>x. x) (\<lambda>x. x) a =
     (if a = 0 then Inl ZeroDivisionError
      else Inr (C_gyro_exact,
          510998.95 * a * C_gyro_exact / 10 ^ 6,
          510998.95 * a * C_gyro_exact / 10 ^ 6 * exp (pi / 9)))"
  using ln_term_pos exp1_plus_1
  by (simp add: calc_qcd_scale_def log_term_exact bind_err_def mp_defs Let_def C_gyro_exact_def)

lemma vgc_Inr_full:
  "verify_geometric_coupling L p c = (Inr G, c') \<Longrightarrow>
     \<exists>c1 T. ensure ''T_eq'' (verify_transcendental_equation L p) c = (Inr (), c1) \<and>
       c1 ''T_eq'' = Some T \<and> geometric_coupling (rnd L p) T = Inr G \<and>
       c' = c1(''G'' \<mapsto> G, ''G_target'' \<mapsto> mpf (rnd L p) 0.074660340411,
               ''G_error'' \<mapsto>
                 mp_abs (rnd L p) (mp_sub (rnd L p) G (mpf (rnd L p) 0.074660340411)))"
  by (auto simp: verify_geometric_coupling_def Let_def
      split: sum.splits prod.splits option.splits)

lemma vqs_Inr:
  "verify_qcd_scale L p c0 = (Inr x, c') \<Longrightarrow>
     \<exists>c C B. ensure ''G'' (verify_geometric_coupling L p) c0 = (Inr (), c) \<and>
       qcd_scale (rnd L p) (flt L) = Inr (C, B, x) \<and>
       c' = c(''C_gyro'' \<mapsto> C, ''Lambda_QCD_bare'' \<mapsto> B, ''Lambda_QCD_1GeV'' \<mapsto> x)"
  by (auto simp: verify_qcd_scale_def split: sum.splits prod.splits)

lemma cqs_Inr:
  "compute_qcd_scale L p c0 = (Inr x, c') \<Longrightarrow>
     \<exists>c a C B. ensure ''alpha_inv_pred'' (calc_verify_zdc L p) c0 = (Inr (), c) \<and>
       c ''alpha_inv_pred'' = Some a \<and>
       calc_qcd_scale (rnd L p) (flt L) a = Inr (C, B, x) \<and>
       c' = c(''Lambda_QCD_bare'' \<mapsto> B, ''Lambda_QCD_1GeV'' \<mapsto> x, ''C_gyro'' \<mapsto> C)"
  by (auto simp: compute_qcd_scale_def lookup_def bind_err_def
      split: sum.splits prod.splits option.splits)

lemma zdc_exact:
  assumes "c ''G'' = Some g"
  shows "verify_zdc (exact_lib S) p c =
     (Inr (1836.15267343 * g, 137.035999084, \<bar>1836.15267343 * g - 137.035999084\<bar>),
      c(''alpha_inv_pred'' \<mapsto> 1836.15267343 * g,
        ''alpha_inv_CODATA'' \<mapsto> 137.035999084,
        ''zdc_error'' \<mapsto> \<bar>1836.15267343 * g - 137.035999084\<bar>,
        ''zdc_rel_error'' \<mapsto> \<bar>1836.15267343 * g - 137.035999084\<bar> / 137.035999084))"
  using assms by (simp add: verify_zdc_def ensure_def Let_def mp_defs)

lemma significant_digits_exact:
  "significant_digits (exact_lib S) p x =
     (if x = 0 then Inl OverflowError
      else if 0 < x then Inr (if 0 \<le> - log 10 x then \<lfloor>- log 10 x\<rfloor> else \<lceil>- log 10 x\<rceil>)
      else Inl NotReal)"
  by (simp add: significant_digits_def mp_log10_def bind_err_def)

lemma calc_zdc_exact:
  assumes "c ''G'' = Some g"
  shows "calc_verify_zdc (exact_lib S) p c =
     (if 1836.15267343 * g = 137.035999084 then Inl OverflowError
      else Inr (1836.15267343 * g, 137.035999084, \<bar>1836.15267343 * g - 137.035999084\<bar>),
      c(''mu'' \<mapsto> 1836.15267343,
        ''alpha_inv_pred'' \<mapsto> 1836.15267343 * g,
        ''alpha_inv_CODATA'' \<mapsto> 137.035999084,
        ''zdc_error'' \<mapsto> \<bar>1836.15267343 * g - 137.035999084\<bar>,
        ''zdc_rel_error'' \<mapsto> \<bar>1836.15267343 * g - 137.035999084\<bar> / 137.035999084))"
  using assms
  by (simp add: calc_verify_zdc_def ensure_def Let_def mp_defs significant_digits_exact
      bind_err_def)

lemma vqs_exact:
  assumes "c ''G'' \<noteq> None"
  shows "verify_qcd_scale (exact_lib S) p c =
     (Inr (510998.95 * 137.035999084 * C_gyro_exact / 10 ^ 6 * exp (- (2 * pi / 11))),
      c(''C_gyro'' \<mapsto> C_gyro_exact,
        ''Lambda_QCD_bare'' \<mapsto> 510998.95 * 137.035999084 * C_gyro_exact / 10 ^ 6,
        ''Lambda_QCD_1GeV'' \<mapsto>
           510998.95 * 137.035999084 * C_gyro_exact / 10 ^ 6 * exp (- (2 * pi / 11))))"
  using assms by (simp add: verify_qcd_scale_def ensure_present qcd_scale_exact)

lemma cqs_exact:
  assumes "c ''alpha_inv_pred'' = Some a" and "a \<noteq> 0"
  shows "compute_qcd_scale (exact_lib S) p c =
     (Inr (510998.95 * a * C_gyro_exact / 10 ^ 6 * exp (pi / 9)),
      c(''Lambda_QCD_bare'' \<mapsto> 510998.95 * a * C_gyro_exact / 10 ^ 6,
        ''Lambda_QCD_1GeV'' \<mapsto> 510998.95 * a * C_gyro_exact / 10 ^ 6 * exp (pi / 9),
        ''C_gyro'' \<mapsto> C_gyro_exact))"
  using assms
  by (simp add: compute_qcd_scale_def ensure_present lookup_def bind_err_def calc_qcd_scale_exact)

lemma vgrav_exact:
  assumes "c ''G'' = Some g" and "c ''T_eq'' = Some T" and "g \<noteq> 0" and "T \<noteq> 0"
  shows "verify_gravitational_constant (exact_lib S) p c =
     (Inr (299792458 ^ 3 / (1.054571817 / 10 ^ 34) *
             (g ^ 2 / (1.054571817 / 10 ^ 34 / 299792458 * (pi / sqrt 2) * (1 / (g * T))) ^ 2),
           - (0.8 / 10 ^ 12)),
      c(''M_s'' \<mapsto> 1.054571817 / 10 ^ 34 / 299792458 * (pi / sqrt 2) * (1 / (g * T)),
        ''G_pred'' \<mapsto> 299792458 ^ 3 / (1.054571817 / 10 ^ 34) *
             (g ^ 2 / (1.054571817 / 10 ^ 34 / 299792458 * (pi / sqrt 2) * (1 / (g * T))) ^ 2),
        ''G_CODATA'' \<mapsto> 6.67430 / 10 ^ 11,
        ''Gdot_over_G'' \<mapsto> - (0.8 / 10 ^ 12)))"
  using assms
  by (simp add: verify_gravitational_constant_def ensure_present substrate_mass_def
      bind_err_def mp_defs Let_def)

lemma cgrav_exact:
  assumes "c ''G'' = Some g" and "c ''T_eq'' = Some T" and "g \<noteq> 0" and "T \<noteq> 0"
    and "sc_c K \<noteq> 0" and "sc_hbar K \<noteq> 0"
  shows "compute_gravitational_constant (exact_lib S) K p c =
     (Inr (sc_c K ^ 3 / sc_hbar K *
             (g ^ 2 / (sc_hbar K / sc_c K * (pi / sqrt 2) * (1 / (g * T))) ^ 2),
           - (0.8 / 10 ^ 12)),
      c(''G_pred'' \<mapsto> sc_c K ^ 3 / sc_hbar K *
             (g ^ 2 / (sc_hbar K / sc_c K * (pi / sqrt 2) * (1 / (g * T))) ^ 2),
        ''Gdot_over_G'' \<mapsto> - (0.8 / 10 ^ 12),
        ''M_s'' \<mapsto> sc_hbar K / sc_c K * (pi / sqrt 2) * (1 / (g * T))))"
  using assms
  by (simp add: compute_gravitational_constant_def ensure_present calc_substrate_mass_def
      bind_err_def mp_defs Let_def)

section \<open>The substrate mass scale\<close>

lemma substrate_mass_of_coupling:
  assumes "T \<noteq> 0"
  shows "h / c * (pi / sqrt 2) * (1 / (1 / (exp 1 * pi * sqrt 2 * T) * T)) = exp 1 * pi\<^sup>2 * h / c"
proof -
  have "1 / (exp 1 * pi * sqrt 2 * T) * T = 1 / (exp 1 * pi * sqrt 2)"
    using assms by simp
  then have "h / c * (pi / sqrt 2) * (1 / (1 / (exp 1 * pi * sqrt 2 * T) * T))
      = h / c * (pi / sqrt 2) * (exp 1 * pi * sqrt 2)"
    by simp
  also have "\<dots> = exp 1 * pi\<^sup>2 * h / c"
    by (simp add: power2_eq_square)
  finally show ?thesis .
qed

lemma vgrav_M_s:
  assumes "c ''G'' = None"
    and "verify_gravitational_constant (exact_lib S) p c = (Inr x, c')"
  shows "c' ''M_s'' = Some (exp 1 * pi\<^sup>2 * (1.054571817 / 10 ^ 34) / 299792458)"
proof -
  let ?L = "exact_lib S"
  obtain res c1 where e: "ensure ''G'' (verify_geometric_coupling ?L p) c = (res, c1)"
    by (cases "ensure ''G'' (verify_geometric_coupling ?L p) c")
  have res: "res = Inr ()"
    using assms(2) e by (cases res) (auto simp: verify_gravitational_constant_def Let_def)
  then obtain G where v: "verify_geometric_coupling ?L p c = (Inr G, c1)"
    using e assms(1) by (auto simp: ensure_def split: sum.splits prod.splits)
  from vgc_Inr_full [OF v] obtain T where
    T: "c1 ''T_eq'' = Some T" "geometric_coupling (\<lambda>x. x) T = Inr G" "c1 ''G'' = Some G"
    by auto
  from T(2) have T0: "T \<noteq> 0" and G: "G = 1 / (exp 1 * pi * sqrt 2 * T)"
    by (auto simp: geometric_coupling_exact split: if_splits)
  have G0: "G \<noteq> 0" using T0 G by simp
  have "verify_gravitational_constant ?L p c = verify_gravitational_constant ?L p c1"
    using e res by (simp add: verify_gravitational_constant_def Let_def ensure_present T(3))
  with assms(2) have "verify_gravitational_constant ?L p c1 = (Inr x, c')" by simp
  then have "c' ''M_s'' = Some (1.054571817 / 10 ^ 34 / 299792458 * (pi / sqrt 2) * (1 / (G * T)))"
    unfolding vgrav_exact [OF T(3) T(1) G0 T0] by auto
  then show ?thesis
    unfolding G substrate_mass_of_coupling [OF T0] by simp
qed

lemma cgrav_M_s:
  assumes "c ''G'' = None"
    and "compute_gravitational_constant (exact_lib S) K p c = (Inr x, c')"
  shows "c' ''M_s'' = Some (exp 1 * pi\<^sup>2 * sc_hbar K / sc_c K)"
proof -
  let ?L = "exact_lib S"
  obtain res c1 where e: "ensure ''G'' (compute_geometric_factors ?L p) c = (res, c1)"
    by (cases "ensure ''G'' (compute_geometric_factors ?L p) c")
  have res: "res = Inr ()"
    using assms(2) e by (cases res) (auto simp: compute_gravitational_constant_def Let_def)
  then obtain T G where v: "compute_geometric_factors ?L p c = (Inr (T, G), c1)"
    using e assms(1) by (auto simp: ensure_def split: sum.splits prod.splits)
  from cgf_Inr [OF v] have
    T: "c1 ''T_eq'' = Some T" "geometric_coupling (\<lambda>x. x) T = Inr G" "c1 ''G'' = Some G"
    by auto
  from T(2) have T0: "T \<noteq> 0" and G: "G = 1 / (exp 1 * pi * sqrt 2 * T)"
    by (auto simp: geometric_coupling_exact split: if_splits)
  have G0: "G \<noteq> 0" using T0 G by simp
  have run: "compute_gravitational_constant ?L K p c1 = (Inr x, c')"
    using e res assms(2)
    by (simp add: compute_gravitational_constant_def Let_def ensure_present T(3))
  have c0: "sc_c K \<noteq> 0"
    using run T(1,3)
    by (auto simp: compute_gravitational_constant_def Let_def ensure_present
        calc_substrate_mass_def float_div_def bind_err_def)
  have h0: "sc_hbar K \<noteq> 0"
    using run T(1,3) c0 G0 T0
    by (auto simp: compute_gravitational_constant_def Let_def ensure_present
        calc_substrate_mass_def bind_err_def mp_defs)
  from run have "c' ''M_s'' = Some (sc_hbar K / sc_c K * (pi / sqrt 2) * (1 / (G * T)))"
    unfolding cgrav_exact [OF T(3) T(1) G0 T0 c0 h0] by auto
  then show ?thesis
    unfolding G substrate_mass_of_coupling [OF T0] by simp
qed

section \<open>Frame of each stage\<close>

lemma writes_refl: "writes W c c"
  by (simp add: writes_def)

lemma writes_trans: "writes W1 c c' \<Longrightarrow> writes W2 c' c'' \<Longrightarrow> writes (W1 \<union> W2) c c''"
  by (auto simp: writes_def)

lemma writes_mono: "writes W c c' \<Longrightarrow> W \<subseteq> W' \<Longrightarrow> writes W' c c'"
  by (auto simp: writes_def)

lemma writes_upd: "k \<in> W \<Longrightarrow> writes W c c' \<Longrightarrow> writes W c (c'(k \<mapsto> v))"
  by (auto simp: writes_def)

lemma writes_ensure:
  "writes W c (snd (up c)) \<Longrightarrow> writes W c (snd (ensure k up c))"
  by (auto simp: ensure_def writes_refl split: prod.splits sum.splits)

lemma writes_vte: "writes keys_vte c (snd (verify_transcendental_equation L p c))"
  by (auto simp: verify_transcendental_equation_def Let_def keys_vte_def writes_def
      split: sum.splits)

lemma writes_vgc: "writes keys_vgc c (snd (verify_geometric_coupling L p c))"
proof -
  obtain res c1 where e: "ensure ''T_eq'' (verify_transcendental_equation L p) c = (res, c1)"
    by (cases "ensure ''T_eq'' (verify_transcendental_equation L p) c")
  have 1: "writes keys_vgc c c1"
    using writes_ensure [of keys_vte c "verify_transcendental_equation L p" "''T_eq''", OF writes_vte] e
    by (auto simp: keys_vgc_def intro: writes_mono)
  show ?thesis
    using e 1
    by (auto simp: verify_geometric_coupling_def Let_def keys_vgc_def
        split: sum.splits option.splits intro!: writes_upd)
qed

lemma writes_zdc: "writes keys_zdc c (snd (verify_zdc L p c))"
proof -
  obtain res c1 where e: "ensure ''G'' (verify_geometric_coupling L p) c = (res, c1)"
    by (cases "ensure ''G'' (verify_geometric_coupling L p) c")
  have 1: "writes keys_zdc c c1"
    using writes_ensure [of keys_vgc c "verify_geometric_coupling L p" "''G''", OF writes_vgc] e
    by (auto simp: keys_zdc_def intro: writes_mono)
  show ?thesis
    using e 1
    by (auto simp: verify_zdc_def Let_def keys_zdc_def
        split: sum.splits option.splits intro!: writes_upd)
qed

lemma writes_qcd: "writes keys_qcd c (snd (verify_qcd_scale L p c))"
proof -
  obtain res c1 where e: "ensure ''G'' (verify_geometric_coupling L p) c = (res, c1)"
    by (cases "ensure ''G'' (verify_geometric_coupling L p) c")
  have 1: "writes keys_qcd c c1"
    using writes_ensure [of keys_vgc c "verify_geometric_coupling L p" "''G''", OF writes_vgc] e
    by (auto simp: keys_qcd_def intro: writes_mono)
  show ?thesis
    using e 1
    by (auto simp: verify_qcd_scale_def Let_def keys_qcd_def
        split: sum.splits option.splits prod.splits intro!: writes_upd)
qed

lemma writes_grav: "writes keys_grav c (snd (verify_gravitational_constant L p c))"
proof -
  obtain res c1 where e: "ensure ''G'' (verify_geometric_coupling L p) c = (res, c1)"
    by (cases "ensure ''G'' (verify_geometric_coupling L p) c")
  have 1: "writes keys_grav c c1"
    using writes_ensure [of keys_vgc c "verify_geometric_coupling L p" "''G''", OF writes_vgc] e
    by (auto simp: keys_grav_def intro: writes_mono)
  show ?thesis
    using e 1
    by (auto simp: verify_gravitational_constant_def Let_def keys_grav_def
        split: sum.splits option.splits prod.splits intro!: writes_upd)
qed


lemma writes_cgf: "writes keys_cgf c (snd (compute_geometric_factors L p c))"
  by (auto simp: compute_geometric_factors_def Let_def keys_cgf_def writes_def
      split: sum.splits)

lemma writes_czdc: "writes keys_czdc c (snd (calc_verify_zdc L p c))"
proof -
  obtain res c1 where e: "ensure ''G'' (compute_geometric_factors L p) c = (res, c1)"
    by (cases "ensure ''G'' (compute_geometric_factors L p) c")
  have 1: "writes keys_czdc c c1"
    using writes_ensure [of keys_cgf c "compute_geometric_factors L p" "''G''", OF writes_cgf] e
    by (auto simp: keys_czdc_def intro: writes_mono)
  show ?thesis
    using e 1
    by (auto simp: calc_verify_zdc_def Let_def keys_czdc_def
        split: sum.splits option.splits intro!: writes_upd)
qed

lemma writes_cqcd: "writes keys_cqcd c (snd (compute_qcd_scale L p c))"
proof -
  obtain res c1 where e: "ensure ''alpha_inv_pred'' (calc_verify_zdc L p) c = (res, c1)"
    by (cases "ensure ''alpha_inv_pred'' (calc_verify_zdc L p) c")
  have 1: "writes keys_cqcd c c1"
    using writes_ensure [of keys_czdc c "calc_verify_zdc L p" "''alpha_inv_pred''", OF writes_czdc] e
    by (auto simp: keys_cqcd_def intro: writes_mono)
  show ?thesis
    using e 1
    by (auto simp: compute_qcd_scale_def Let_def keys_cqcd_def
        split: sum.splits option.splits prod.splits intro!: writes_upd)
qed

lemma writes_cgrav: "writes keys_cgrav c (snd (compute_gravitational_constant L K p c))"
proof -
  obtain res c1 where e: "ensure ''G'' (compute_geometric_factors L p) c = (res, c1)"
    by (cases "ensure ''G'' (compute_geometric_factors L p) c")
  have 1: "writes keys_cgrav c c1"
    using writes_ensure [of keys_cgf c "compute_geometric_factors L p" "''G''", OF writes_cgf] e
    by (auto simp: keys_cgrav_def intro: writes_mono)
  show ?thesis
    using e 1
    by (auto simp: compute_gravitational_constant_def Let_def keys_cgrav_def
        split: sum.splits option.splits prod.splits intro!: writes_upd)
qed

section \<open>The drivers\<close>

lemma run_all_first_stage_fails:
  "verify_transcendental_equation L p c = (Inl err, c') \<Longrightarrow>
     run_all_verifications L p c = (Inl err, c')"
  by (simp add: run_all_verifications_def)

lemma run_complete_first_stage_fails:
  "compute_geometric_factors L p c = (Inl err, c') \<Longrightarrow>
     run_complete_analysis L K p c = (Inl err, c')"
  by (simp add: run_complete_analysis_def)

section \<open>Failure of the root finder\<close>

text \<open>
  Claim C6, as amended. When \<open>mp.findroot\<close> raises, the solver stage of either class
  raises that same exception and leaves the dictionary exactly as it was, so no \<open>T_eq\<close>
  is written; the driver, whose first call is that stage, raises it as well with the
  dictionary unchanged. The exception is the library's own (ValueError in mpmath): the
  source defines no exception class, raises nothing itself and passes no bound on the
  iterations to the root finder. In \<open>verify_transcendental_equation\<close> the unused
  derivation of epsilon (lines 20 to 26) runs before the root finder; the second
  hypothesis says that it completes, as it does in exact arithmetic.
\<close>

theorem root_finder_failure_propagates:
  assumes "findroot L p (transcendental_eq (mpf (rnd L p) (4.350917 / 10 ^ 14)))
             (mpf (rnd L p) 1.0) = Inl err"
    and "epsilon_BSM_derived (rnd L p) = Inr v"
  shows "verify_transcendental_equation L p c = (Inl err, c) \<and>
         run_all_verifications L p c = (Inl err, c) \<and>
         compute_geometric_factors L p c = (Inl err, c) \<and>
         run_complete_analysis L K p c = (Inl err, c)"
proof -
  have 1: "verify_transcendental_equation L p c = (Inl err, c)"
    using assms by (simp add: verify_transcendental_equation_def Let_def)
  have 2: "compute_geometric_factors L p c = (Inl err, c)"
    using assms(1) by (simp add: compute_geometric_factors_def Let_def)
  from 1 2 show ?thesis
    by (simp add: run_all_first_stage_fails run_complete_first_stage_fails)
qed

theorem root_finder_failure_propagates_witness:
  "findroot (exact_lib failing_root) 100
     (transcendental_eq (mpf (rnd (exact_lib failing_root) 100) (4.350917 / 10 ^ 14)))
     (mpf (rnd (exact_lib failing_root) 100) 1.0) = Inl ValueError \<and>
   (\<exists>v. epsilon_BSM_derived (rnd (exact_lib failing_root) 100) = Inr v) \<and>
   verify_transcendental_equation (exact_lib failing_root) 100 Map.empty
     = (Inl ValueError, Map.empty) \<and>
   run_all_verifications (exact_lib failing_root) 100 Map.empty = (Inl ValueError, Map.empty) \<and>
   compute_geometric_factors (exact_lib failing_root) 100 Map.empty
     = (Inl ValueError, Map.empty) \<and>
   run_complete_analysis (exact_lib failing_root) scipy_table 100 Map.empty
     = (Inl ValueError, Map.empty)"
proof -
  let ?L = "exact_lib failing_root"
  have f: "findroot ?L 100 (transcendental_eq (mpf (rnd ?L 100) (4.350917 / 10 ^ 14)))
     (mpf (rnd ?L 100) 1.0) = Inl ValueError"
    by (simp add: failing_root_def)
  obtain v where v: "epsilon_BSM_derived (rnd ?L 100) = Inr v"
    using epsilon_BSM_derived_exact by auto
  from root_finder_failure_propagates [OF f v, of Map.empty scipy_table] f v
  show ?thesis by blast
qed


text \<open>
  The claim as stated fails in the exception it names: when the root finder does not
  settle, what leaves the stage and the driver of either class is the ValueError of
  \<open>mp.findroot\<close>, not a ConvergenceError.
\<close>

theorem no_convergence_error_counterexample:
  "fst (verify_transcendental_equation (exact_lib failing_root) 100 Map.empty)
     = Inl ValueError \<and>
   fst (verify_transcendental_equation (exact_lib failing_root) 100 Map.empty)
     \<noteq> Inl ConvergenceError \<and>
   fst (run_all_verifications (exact_lib failing_root) 100 Map.empty) \<noteq> Inl ConvergenceError \<and>
   fst (compute_geometric_factors (exact_lib failing_root) 100 Map.empty)
     = Inl ValueError \<and>
   fst (compute_geometric_factors (exact_lib failing_root) 100 Map.empty)
     \<noteq> Inl ConvergenceError \<and>
   fst (run_complete_analysis (exact_lib failing_root) scipy_table 100 Map.empty)
     \<noteq> Inl ConvergenceError"
proof -
  let ?L = "exact_lib failing_root"
  obtain v where v: "epsilon_BSM_derived (\<lambda>x. x) = Inr v"
    using epsilon_BSM_derived_exact by auto
  have 1: "verify_transcendental_equation ?L 100 Map.empty = (Inl ValueError, Map.empty)"
    using v by (simp add: verify_transcendental_equation_def Let_def failing_root_def)
  have 2: "compute_geometric_factors ?L 100 Map.empty = (Inl ValueError, Map.empty)"
    by (simp add: compute_geometric_factors_def Let_def failing_root_def)
  from 1 2 show ?thesis
    by (simp add: run_all_first_stage_fails run_complete_first_stage_fails)
qed

section \<open>The driver in exact arithmetic\<close>

lemma vgc_exact_cached:
  assumes "c ''T_eq'' = Some T"
  shows "verify_geometric_coupling (exact_lib S) p c =
     (if T = 0 then (Inl ZeroDivisionError, c)
      else (Inr (1 / (exp 1 * pi * sqrt 2 * T)),
            c(''G'' \<mapsto> 1 / (exp 1 * pi * sqrt 2 * T),
              ''G_target'' \<mapsto> 0.074660340411,
              ''G_error'' \<mapsto> \<bar>1 / (exp 1 * pi * sqrt 2 * T) - 0.074660340411\<bar>)))"
  using assms
  by (simp add: verify_geometric_coupling_def ensure_def geometric_coupling_exact
      mpf_def mp_abs_def mp_sub_def Let_def)

lemma run_all_exact:
  fixes T :: real and c :: cache and p :: nat
  assumes S: "findroot (exact_lib S) p (transcendental_eq (4.350917 / 10 ^ 14)) 1 = Inr T"
    and T: "T \<noteq> 0"
  shows "1836.15267343 * (1 / (exp 1 * pi * sqrt 2 * T)) = 137.035999084 \<Longrightarrow>
           fst (run_all_verifications (exact_lib S) p c) = Inl OverflowError \<and>
           snd (run_all_verifications (exact_lib S) p c) ''zdc_rel_error'' = Some 0"
    and "1836.15267343 * (1 / (exp 1 * pi * sqrt 2 * T)) \<noteq> 137.035999084 \<Longrightarrow>
           \<exists>d. run_all_verifications (exact_lib S) p c = (Inr d, d)"
proof -
  let ?L = "exact_lib S"
  let ?G = "1 / (exp 1 * pi * sqrt 2 * T)"
  let ?c1 = "c(''epsilon_BSM'' \<mapsto> 4.350917 / 10 ^ 14, ''T_eq'' \<mapsto> T,
                 ''log_term'' \<mapsto> ln (1 + exp 1 / pi))"
  let ?c2 = "?c1(''G'' \<mapsto> ?G, ''G_target'' \<mapsto> 0.074660340411,
                 ''G_error'' \<mapsto> \<bar>?G - 0.074660340411\<bar>)"
  let ?rel = "\<bar>1836.15267343 * ?G - 137.035999084\<bar> / 137.035999084"
  let ?c3 = "?c2(''alpha_inv_pred'' \<mapsto> 1836.15267343 * ?G,
                 ''alpha_inv_CODATA'' \<mapsto> 137.035999084,
                 ''zdc_error'' \<mapsto> \<bar>1836.15267343 * ?G - 137.035999084\<bar>,
                 ''zdc_rel_error'' \<mapsto> ?rel)"
  let ?B = "510998.95 * 137.035999084 * C_gyro_exact / 10 ^ 6"
  let ?c4 = "?c3(''C_gyro'' \<mapsto> C_gyro_exact, ''Lambda_QCD_bare'' \<mapsto> ?B,
                 ''Lambda_QCD_1GeV'' \<mapsto> ?B * exp (- (2 * pi / 11)))"
  have G0: "?G \<noteq> 0" using T by simp
  have s1: "verify_transcendental_equation ?L p c = (Inr (T, 4.350917 / 10 ^ 14), ?c1)"
    using S by (simp add: vte_exact)
  have s2: "verify_geometric_coupling ?L p ?c1 = (Inr ?G, ?c2)"
    using T by (subst vgc_exact_cached [where T = T]) simp_all
  have s2a: "lookup ?c2 ''G_error'' = Inr \<bar>?G - 0.074660340411\<bar>"
    by (simp add: lookup_def)
  have s3: "verify_zdc ?L p ?c2 =
      (Inr (1836.15267343 * ?G, 137.035999084, \<bar>1836.15267343 * ?G - 137.035999084\<bar>), ?c3)"
    by (subst zdc_exact [where g = ?G]) simp_all
  have s4: "bind_err (lookup ?c3 ''zdc_rel_error'') (\<lambda>rel_error.
        bind_err (fmt ?L ''.2e'' rel_error) (\<lambda>_. significant_digits ?L p rel_error)) =
      significant_digits ?L p ?rel"
    by (simp add: lookup_def bind_err_def)
  have s5: "verify_qcd_scale ?L p ?c3 = (Inr (?B * exp (- (2 * pi / 11))), ?c4)"
    by (subst vqs_exact) simp_all
  have s5a: "bind_err (lookup ?c4 ''C_gyro'') (\<lambda>_. lookup ?c4 ''Lambda_QCD_bare'') = Inr ?B"
    by (simp add: lookup_def bind_err_def)
  have a: "?c4 ''G'' = Some ?G" and b: "?c4 ''T_eq'' = Some T"
    by simp_all
  note s6 = vgrav_exact [of ?c4 ?G T S p, OF a b G0 T]
  {
    assume z: "1836.15267343 * ?G = 137.035999084"
    then have "significant_digits ?L p ?rel = Inl OverflowError"
      by (simp add: significant_digits_exact)
    then have "run_all_verifications ?L p c = (Inl OverflowError, ?c3)"
      by (simp only: run_all_verifications_def s1 s2 s2a s3 s4 prod.case sum.case)
    then show "fst (run_all_verifications ?L p c) = Inl OverflowError \<and>
           snd (run_all_verifications ?L p c) ''zdc_rel_error'' = Some 0"
      using z by simp
  }
  {
    assume nz: "1836.15267343 * ?G \<noteq> 137.035999084"
    then have "\<exists>n. significant_digits ?L p ?rel = Inr n"
      by (simp add: significant_digits_exact)
    then obtain n where n: "significant_digits ?L p ?rel = Inr n" ..
    show "\<exists>d. run_all_verifications ?L p c = (Inr d, d)"
      apply (simp only: run_all_verifications_def s1 s2 s2a s3 s4 n s5 s5a s6 prod.case sum.case)
      apply (simp add: lookup_def bind_err_def)
      done
  }
qed


section \<open>The significant-digit count at relative error zero\<close>

lemma significant_digits_zero: "significant_digits L p 0 = Inl (int_inf L)"
  by (simp add: significant_digits_def mp_log10_def bind_err_def)

lemma not_written:
  "writes W c c' \<Longrightarrow> k \<notin> W \<Longrightarrow> c' k = c k"
  by (simp add: writes_def)

lemma run_all_Inr_rel_error:
  assumes "run_all_verifications L p c = (Inr d, c')"
  shows "c' ''zdc_rel_error'' \<noteq> Some 0"
proof -
  from assms obtain c2 c3 x3 rel n x4 c4 x5 where
    z: "verify_zdc L p c2 = (Inr x3, c3)"
    and r: "lookup c3 ''zdc_rel_error'' = Inr rel" "significant_digits L p rel = Inr n"
    and q: "verify_qcd_scale L p c3 = (Inr x4, c4)"
    and g: "verify_gravitational_constant L p c4 = (Inr x5, c')"
    by (auto simp: run_all_verifications_def bind_err_Inr split: prod.splits sum.splits)
  from r(2) have "rel \<noteq> 0"
    using significant_digits_zero [of L p] by auto
  moreover have "c3 ''zdc_rel_error'' = Some rel"
    using r(1) by (auto simp: lookup_def split: option.splits)
  moreover have "c4 ''zdc_rel_error'' = c3 ''zdc_rel_error''"
    using writes_qcd [of c3 L p] q
    by (auto intro!: not_written [where W = keys_qcd] simp: keys_qcd_def keys_vgc_def keys_vte_def)
  moreover have "c' ''zdc_rel_error'' = c4 ''zdc_rel_error''"
    using writes_grav [of c4 L p] g
    by (auto intro!: not_written [where W = keys_grav] simp: keys_grav_def keys_vgc_def keys_vte_def)
  ultimately show ?thesis by simp
qed

lemma calc_zdc_Inr_rel_error:
  assumes "calc_verify_zdc L p c = (Inr x, c')"
  shows "c' ''zdc_rel_error'' \<noteq> Some 0"
  using assms significant_digits_zero [of L p]
  by (auto simp: calc_verify_zdc_def Let_def bind_err_Inr
      split: prod.splits sum.splits option.splits)

lemma calc_zdc_format_raises:
  \<comment> \<open>with a library whose \<open>mpf\<close> accepts no format specification, as mpmath 1.3, the
      method raises at its first formatted print, whatever the relative error\<close>
  assumes "c ''G'' = Some g" and "\<And>x. fmt L ''.2e'' x = Inl ex"
    and "mpf (rnd L p) 137.035999084 \<noteq> 0"
  shows "fst (calc_verify_zdc L p c) = Inl ex"
  using assms
  by (simp add: calc_verify_zdc_def ensure_present Let_def mp_div_def bind_err_def)

text \<open>
  Claim C5, as amended. Neither class treats a relative error of zero apart: both
  "Significant digits" prints evaluate \<open>int(-mp.log10(rel_error))\<close> whatever the value. At
  zero the logarithm is minus infinity and the conversion to \<open>int\<close> raises the library's
  exception for an infinite argument (OverflowError in mpmath 1.4, ValueError in mpmath
  1.3), unless the \<open>:.2e\<close> print before it has raised already. Hence, for every library,
  no run of \<open>run_all_verifications\<close> and no run of \<open>BSMCalculator.verify_zdc\<close> that
  returns normally leaves a relative error of zero in the dictionary: with a relative
  error of zero an exception leaves the method, and nothing is reported about digits.
\<close>

theorem digit_count_raises_at_zero:
  "significant_digits L p 0 = Inl (int_inf L) \<and>
   (run_all_verifications L p c = (Inr d, c') \<longrightarrow> c' ''zdc_rel_error'' \<noteq> Some 0) \<and>
   (calc_verify_zdc L p c = (Inr x, c'') \<longrightarrow> c'' ''zdc_rel_error'' \<noteq> Some 0)"
  using significant_digits_zero run_all_Inr_rel_error calc_zdc_Inr_rel_error by blast

text \<open>
  The claim as stated fails for \<open>BSMCalculator.verify_zdc\<close> called on an instance whose
  dictionary holds \<open>G = 137.035999084 / 1836.15267343\<close>: the prediction is the CODATA
  literal, the relative error stored is exactly zero, and the method raises at the
  "Significant digits" print instead of reporting that all digits match.
\<close>

theorem zero_relative_error_counterexample:
  "snd (calc_verify_zdc (exact_lib (fixed_root 1.614)) 100
          [''G'' \<mapsto> 137.035999084 / 1836.15267343]) ''zdc_rel_error'' = Some 0 \<and>
   fst (calc_verify_zdc (exact_lib (fixed_root 1.614)) 100
          [''G'' \<mapsto> 137.035999084 / 1836.15267343]) = Inl OverflowError \<and>
   significant_digits (exact_lib (fixed_root 1.614)) 100 0 = Inl OverflowError"
  by (simp add: calc_zdc_exact [where g = "137.035999084 / 1836.15267343"]
      significant_digits_exact)

theorem digit_count_raises_at_zero_witness:
  "significant_digits (exact_lib (fixed_root 1.614)) 100 0 = Inl OverflowError \<and>
   (\<exists>d. run_all_verifications (exact_lib (fixed_root 1.614)) 100 Map.empty = (Inr d, d) \<and>
        d ''zdc_rel_error'' \<noteq> Some 0) \<and>
   (\<exists>x c. calc_verify_zdc (exact_lib (fixed_root 1.614)) 100 Map.empty = (Inr x, c) \<and>
        c ''zdc_rel_error'' \<noteq> Some 0)"
proof -
  let ?L = "exact_lib (fixed_root 1.614)"
  have S: "findroot ?L 100 (transcendental_eq (4.350917 / 10 ^ 14)) 1 = Inr 1.614"
    by (simp add: fixed_root_def)
  have ne: "1836.15267343 * (1 / (exp 1 * pi * sqrt 2 * 1.614)) \<noteq> (137.035999084::real)"
    using prediction_below_CODATA by simp
  obtain d where d: "run_all_verifications ?L 100 Map.empty = (Inr d, d)"
    using run_all_exact(2) [OF S _ ne, of Map.empty] by auto
  have g: "ensure ''G'' (compute_geometric_factors ?L 100) Map.empty =
     (Inr (), [''T_eq'' \<mapsto> 1.614, ''G'' \<mapsto> 1 / (exp 1 * pi * sqrt 2 * 1.614),
       ''epsilon_BSM'' \<mapsto> 4.350917 / 10 ^ 14])"
    by (simp add: ensure_def cgf_exact fixed_root_def)
  have "fst (calc_verify_zdc ?L 100 Map.empty) =
      Inr (1836.15267343 * (1 / (exp 1 * pi * sqrt 2 * 1.614)), 137.035999084,
           \<bar>1836.15267343 * (1 / (exp 1 * pi * sqrt 2 * 1.614)) - 137.035999084\<bar>)"
    unfolding calc_verify_zdc_def g using ne
    by (simp add: Let_def mp_defs significant_digits_exact bind_err_def)
  then obtain x c where c: "calc_verify_zdc ?L 100 Map.empty = (Inr x, c)"
    by (cases "calc_verify_zdc ?L 100 Map.empty") auto
  from digit_count_raises_at_zero [of ?L 100 Map.empty d d x c] d c
  have "significant_digits ?L 100 0 = Inl OverflowError \<and>
      d ''zdc_rel_error'' \<noteq> Some 0 \<and> c ''zdc_rel_error'' \<noteq> Some 0"
    by simp
  with d c show ?thesis by blast
qed

section \<open>Instances and precision\<close>

lemma dps_init [simp]:
  "dps (snd (BSMVerification_init q w)) = q" "dps (snd (BSMCalculator_init q w)) = q"
  by (simp_all add: BSMVerification_init_def BSMCalculator_init_def)

lemma dps_call [simp]: "dps (snd (call m self w)) = dps w"
  by (simp add: call_def split: prod.splits)

lemma fst_call: "fst (call m self w) = fst (m (dps w) (objs w ! self))"
  by (simp add: call_def split: prod.splits)

lemma objs_init:
  "self < length (objs w) \<Longrightarrow> objs (snd (BSMVerification_init q w)) ! self = objs w ! self"
  "self < length (objs w) \<Longrightarrow> objs (snd (BSMCalculator_init q w)) ! self = objs w ! self"
  by (simp_all add: BSMVerification_init_def BSMCalculator_init_def nth_append)

text \<open>
  Claim C7, as amended. The working precision is one process-wide setting. Constructing a
  pipeline instance with precision \<open>q\<close> leaves the dictionary of every existing instance
  as it was, but from then on a method of an existing instance computes under \<open>q\<close>, not
  under the precision given when that instance was constructed; a method call itself
  never changes the precision.
\<close>

theorem precision_is_process_wide:
  assumes "self < length (objs w)"
  shows "objs (snd (BSMVerification_init q w)) ! self = objs w ! self \<and>
         objs (snd (BSMCalculator_init q w)) ! self = objs w ! self \<and>
         fst (call m self (snd (BSMVerification_init q w))) = fst (m q (objs w ! self)) \<and>
         fst (call m self (snd (BSMCalculator_init q w))) = fst (m q (objs w ! self)) \<and>
         dps (snd (call m self w)) = dps w"
  using assms by (simp add: fst_call objs_init)

theorem precision_is_process_wide_witness:
  "0 < length (objs (snd (BSMVerification_init 50 start))) \<and>
   objs (snd (BSMCalculator_init 200 (snd (BSMVerification_init 50 start)))) ! 0 = Map.empty \<and>
   fst (call (verify_transcendental_equation (exact_lib precision_root)) 0
          (snd (BSMCalculator_init 200 (snd (BSMVerification_init 50 start)))))
     = fst (verify_transcendental_equation (exact_lib precision_root) 200 Map.empty)"
proof -
  have l: "0 < length (objs (snd (BSMVerification_init 50 start)))"
    by (simp add: BSMVerification_init_def start_def)
  have e: "objs (snd (BSMVerification_init 50 start)) ! 0 = Map.empty"
    by (simp add: BSMVerification_init_def start_def)
  from precision_is_process_wide [OF l, of 200
      "verify_transcendental_equation (exact_lib precision_root)"] l e
  show ?thesis by simp
qed

text \<open>
  The claim as stated fails for a \<open>BSMVerification\<close> made with 50 digits followed by a
  \<open>BSMCalculator\<close> made with 200: the precision in force is then 200, and the first
  instance's solver stage returns the root found at 200 digits, not the one found at 50.
\<close>

theorem second_instance_changes_precision_counterexample:
  "dps (snd (BSMCalculator_init 200 (snd (BSMVerification_init 50 start)))) \<noteq>
     dps (snd (BSMVerification_init 50 start)) \<and>
   fst (call (verify_transcendental_equation (exact_lib precision_root)) 0
          (snd (BSMCalculator_init 200 (snd (BSMVerification_init 50 start)))))
     = Inr (1.614 + 1 / 10 ^ 200, 4.350917 / 10 ^ 14) \<and>
   fst (call (verify_transcendental_equation (exact_lib precision_root)) 0
          (snd (BSMVerification_init 50 start)))
     = Inr (1.614 + 1 / 10 ^ 50, 4.350917 / 10 ^ 14)"
  by (simp add: fst_call vte_exact precision_root_def BSMVerification_init_def
      BSMCalculator_init_def start_def)

section \<open>The QCD confinement-scale stage\<close>

lemma qcd_scale_C_gyro:
  assumes "qcd_scale r fl = Inr (C, B, E)"
  shows "\<exists>t1 t2 t3 t4 t5. gyro_terms r fl = Inr (t1, t2, t3, t4, t5) \<and>
           C = mp_mul r (mp_mul r (mp_mul r (mp_mul r t1 t2) t3) t4) t5"
  using assms
  by (auto simp: qcd_scale_def bind_err_def Let_def split: sum.splits prod.splits)

lemma ensure_Inr_snd: "ensure k up c0 = (Inr u, c) \<Longrightarrow> c = snd (ensure k up c0)"
  by simp

lemma vqs_fresh_1614:
  "verify_qcd_scale (exact_lib (fixed_root 1.614)) 100 Map.empty =
     (Inr (510998.95 * 137.035999084 * C_gyro_exact / 10 ^ 6 * exp (- (2 * pi / 11))),
      [''epsilon_BSM'' \<mapsto> 4.350917 / 10 ^ 14, ''T_eq'' \<mapsto> 1.614,
       ''log_term'' \<mapsto> ln (1 + exp 1 / pi),
       ''G'' \<mapsto> 1 / (exp 1 * pi * sqrt 2 * 1.614),
       ''G_target'' \<mapsto> 0.074660340411,
       ''G_error'' \<mapsto> \<bar>1 / (exp 1 * pi * sqrt 2 * 1.614) - 0.074660340411\<bar>,
       ''C_gyro'' \<mapsto> C_gyro_exact,
       ''Lambda_QCD_bare'' \<mapsto> 510998.95 * 137.035999084 * C_gyro_exact / 10 ^ 6,
       ''Lambda_QCD_1GeV'' \<mapsto>
          510998.95 * 137.035999084 * C_gyro_exact / 10 ^ 6 * exp (- (2 * pi / 11))])"
  by (simp add: verify_qcd_scale_def ensure_def vgc_exact_fresh fixed_root_def qcd_scale_exact)

lemma calc_zdc_fresh_1614:
  "calc_verify_zdc (exact_lib (fixed_root 1.614)) 100 Map.empty =
     (Inr (1836.15267343 * (1 / (exp 1 * pi * sqrt 2 * 1.614)), 137.035999084,
           \<bar>1836.15267343 * (1 / (exp 1 * pi * sqrt 2 * 1.614)) - 137.035999084\<bar>),
      [''T_eq'' \<mapsto> 1.614, ''G'' \<mapsto> 1 / (exp 1 * pi * sqrt 2 * 1.614),
       ''epsilon_BSM'' \<mapsto> 4.350917 / 10 ^ 14,
       ''mu'' \<mapsto> 1836.15267343,
       ''alpha_inv_pred'' \<mapsto> 1836.15267343 * (1 / (exp 1 * pi * sqrt 2 * 1.614)),
       ''alpha_inv_CODATA'' \<mapsto> 137.035999084,
       ''zdc_error'' \<mapsto> \<bar>1836.15267343 * (1 / (exp 1 * pi * sqrt 2 * 1.614)) - 137.035999084\<bar>,
       ''zdc_rel_error'' \<mapsto>
          \<bar>1836.15267343 * (1 / (exp 1 * pi * sqrt 2 * 1.614)) - 137.035999084\<bar> / 137.035999084])"
proof -
  let ?L = "exact_lib (fixed_root 1.614)"
  have ne: "1836.15267343 * (1 / (exp 1 * pi * sqrt 2 * 1.614)) \<noteq> (137.035999084::real)"
    using prediction_below_CODATA by simp
  have g: "ensure ''G'' (compute_geometric_factors ?L 100) Map.empty =
     (Inr (), [''T_eq'' \<mapsto> 1.614, ''G'' \<mapsto> 1 / (exp 1 * pi * sqrt 2 * 1.614),
       ''epsilon_BSM'' \<mapsto> 4.350917 / 10 ^ 14])"
    by (simp add: ensure_def cgf_exact fixed_root_def)
  show ?thesis
    unfolding calc_verify_zdc_def g using ne
    by (simp add: Let_def mp_defs significant_digits_exact bind_err_def)
qed

lemma cqs_full_1614:
  "compute_qcd_scale (exact_lib (fixed_root 1.614)) 100 Map.empty =
     (Inr (510998.95 * (1836.15267343 * (1 / (exp 1 * pi * sqrt 2 * 1.614))) * C_gyro_exact / 10 ^ 6
            * exp (pi / 9)),
      (snd (calc_verify_zdc (exact_lib (fixed_root 1.614)) 100 Map.empty))
       (''Lambda_QCD_bare'' \<mapsto>
          510998.95 * (1836.15267343 * (1 / (exp 1 * pi * sqrt 2 * 1.614))) * C_gyro_exact / 10 ^ 6,
        ''Lambda_QCD_1GeV'' \<mapsto>
          510998.95 * (1836.15267343 * (1 / (exp 1 * pi * sqrt 2 * 1.614))) * C_gyro_exact / 10 ^ 6
            * exp (pi / 9),
        ''C_gyro'' \<mapsto> C_gyro_exact))"
proof -
  let ?L = "exact_lib (fixed_root 1.614)"
  let ?a = "1836.15267343 * (1 / (exp 1 * pi * sqrt 2 * 1.614))"
  obtain x c1 where z: "calc_verify_zdc ?L 100 Map.empty = (Inr x, c1)"
    and a: "c1 ''alpha_inv_pred'' = Some ?a"
    unfolding calc_zdc_fresh_1614 by simp
  have e: "ensure ''alpha_inv_pred'' (calc_verify_zdc ?L 100) Map.empty = (Inr (), c1)"
    using z by (simp add: ensure_def)
  have a0: "?a \<noteq> 0" by simp
  have "compute_qcd_scale ?L 100 Map.empty = compute_qcd_scale ?L 100 c1"
    using e a by (simp add: compute_qcd_scale_def ensure_present)
  then show ?thesis
    unfolding cqs_exact [of c1 ?a "fixed_root 1.614" 100, OF a a0] using z by simp
qed

text \<open>
  Claim C8, as amended. When the QCD stage returns, it has added exactly three entries to
  the dictionary its upstream stage left: \<open>C_gyro\<close>, \<open>Lambda_QCD_bare\<close> and
  \<open>Lambda_QCD_1GeV\<close> (the value returned). In \<open>verify_qcd_scale\<close> the entry \<open>C_gyro\<close> is the
  product of the five sub-terms; the sub-terms themselves are local variables and are not
  stored under any key.
\<close>

theorem qcd_stage_cache_entries:
  "(verify_qcd_scale L p c = (Inr x, c') \<longrightarrow>
      (\<exists>t1 t2 t3 t4 t5 B. gyro_terms (rnd L p) (flt L) = Inr (t1, t2, t3, t4, t5) \<and>
         c' = (snd (ensure ''G'' (verify_geometric_coupling L p) c))
                (''C_gyro'' \<mapsto>
                   mp_mul (rnd L p) (mp_mul (rnd L p) (mp_mul (rnd L p)
                     (mp_mul (rnd L p) t1 t2) t3) t4) t5,
                 ''Lambda_QCD_bare'' \<mapsto> B, ''Lambda_QCD_1GeV'' \<mapsto> x))) \<and>
   (compute_qcd_scale L p c = (Inr y, c'') \<longrightarrow>
      (\<exists>C B. c'' = (snd (ensure ''alpha_inv_pred'' (calc_verify_zdc L p) c))
                (''Lambda_QCD_bare'' \<mapsto> B, ''Lambda_QCD_1GeV'' \<mapsto> y, ''C_gyro'' \<mapsto> C)))"
proof (intro conjI impI)
  assume "verify_qcd_scale L p c = (Inr x, c')"
  from vqs_Inr [OF this] obtain c1 C B where
    e: "ensure ''G'' (verify_geometric_coupling L p) c = (Inr (), c1)"
    and q: "qcd_scale (rnd L p) (flt L) = Inr (C, B, x)"
    and c': "c' = c1(''C_gyro'' \<mapsto> C, ''Lambda_QCD_bare'' \<mapsto> B, ''Lambda_QCD_1GeV'' \<mapsto> x)"
    by blast
  from qcd_scale_C_gyro [OF q] e c'
  show "\<exists>t1 t2 t3 t4 t5 B. gyro_terms (rnd L p) (flt L) = Inr (t1, t2, t3, t4, t5) \<and>
         c' = (snd (ensure ''G'' (verify_geometric_coupling L p) c))
                (''C_gyro'' \<mapsto>
                   mp_mul (rnd L p) (mp_mul (rnd L p) (mp_mul (rnd L p)
                     (mp_mul (rnd L p) t1 t2) t3) t4) t5,
                 ''Lambda_QCD_bare'' \<mapsto> B, ''Lambda_QCD_1GeV'' \<mapsto> x)"
    by auto
next
  assume "compute_qcd_scale L p c = (Inr y, c'')"
  from cqs_Inr [OF this] obtain c1 C B where
    "ensure ''alpha_inv_pred'' (calc_verify_zdc L p) c = (Inr (), c1)"
    "c'' = c1(''Lambda_QCD_bare'' \<mapsto> B, ''Lambda_QCD_1GeV'' \<mapsto> y, ''C_gyro'' \<mapsto> C)"
    by blast
  then have "c'' = (snd (ensure ''alpha_inv_pred'' (calc_verify_zdc L p) c))
                (''Lambda_QCD_bare'' \<mapsto> B, ''Lambda_QCD_1GeV'' \<mapsto> y, ''C_gyro'' \<mapsto> C)"
    by simp
  then show "\<exists>C B. c'' = (snd (ensure ''alpha_inv_pred'' (calc_verify_zdc L p) c))
                (''Lambda_QCD_bare'' \<mapsto> B, ''Lambda_QCD_1GeV'' \<mapsto> y, ''C_gyro'' \<mapsto> C)"
    by blast
qed

theorem qcd_stage_cache_entries_witness:
  "\<exists>x c' y c''.
     verify_qcd_scale (exact_lib (fixed_root 1.614)) 100 Map.empty = (Inr x, c') \<and>
     (\<exists>t1 t2 t3 t4 t5 B. gyro_terms (\<lambda>x. x) (\<lambda>x. x) = Inr (t1, t2, t3, t4, t5) \<and>
         c' = (snd (ensure ''G'' (verify_geometric_coupling (exact_lib (fixed_root 1.614)) 100)
                  Map.empty))
                (''C_gyro'' \<mapsto> t1 * t2 * t3 * t4 * t5,
                 ''Lambda_QCD_bare'' \<mapsto> B, ''Lambda_QCD_1GeV'' \<mapsto> x)) \<and>
     compute_qcd_scale (exact_lib (fixed_root 1.614)) 100 Map.empty = (Inr y, c'') \<and>
     (\<exists>C B. c'' = (snd (ensure ''alpha_inv_pred'' (calc_verify_zdc (exact_lib (fixed_root 1.614)) 100)
                        Map.empty))
                (''Lambda_QCD_bare'' \<mapsto> B, ''Lambda_QCD_1GeV'' \<mapsto> y, ''C_gyro'' \<mapsto> C))"
proof -
  let ?L = "exact_lib (fixed_root 1.614)"
  obtain x c' where 1: "verify_qcd_scale ?L 100 Map.empty = (Inr x, c')"
    using vqs_fresh_1614 by blast
  obtain y c'' where 2: "compute_qcd_scale ?L 100 Map.empty = (Inr y, c'')"
    using cqs_full_1614 by blast
  from qcd_stage_cache_entries [of ?L 100 Map.empty x c' y c''] 1 2
  show ?thesis
    by (simp add: mp_mul_def)
qed

text \<open>
  The claim as stated fails on a fresh instance of either class: after the QCD stage the
  dictionary holds the keys of the upstream stages and the three keys above, and no entry
  for any of the five sub-terms.
\<close>

theorem qcd_sub_terms_not_cached_counterexample:
  "dom (snd (verify_qcd_scale (exact_lib (fixed_root 1.614)) 100 Map.empty)) =
     {''epsilon_BSM'', ''T_eq'', ''log_term'', ''G'', ''G_target'', ''G_error'',
      ''C_gyro'', ''Lambda_QCD_bare'', ''Lambda_QCD_1GeV''} \<and>
   dom (snd (compute_qcd_scale (exact_lib (fixed_root 1.614)) 100 Map.empty)) =
     {''T_eq'', ''G'', ''epsilon_BSM'', ''mu'', ''alpha_inv_pred'', ''alpha_inv_CODATA'',
      ''zdc_error'', ''zdc_rel_error'', ''Lambda_QCD_bare'', ''Lambda_QCD_1GeV'', ''C_gyro''}"
proof
  show "dom (snd (verify_qcd_scale (exact_lib (fixed_root 1.614)) 100 Map.empty)) =
     {''epsilon_BSM'', ''T_eq'', ''log_term'', ''G'', ''G_target'', ''G_error'',
      ''C_gyro'', ''Lambda_QCD_bare'', ''Lambda_QCD_1GeV''}"
    unfolding vqs_fresh_1614 by auto
  show "dom (snd (compute_qcd_scale (exact_lib (fixed_root 1.614)) 100 Map.empty)) =
     {''T_eq'', ''G'', ''epsilon_BSM'', ''mu'', ''alpha_inv_pred'', ''alpha_inv_CODATA'',
      ''zdc_error'', ''zdc_rel_error'', ''Lambda_QCD_bare'', ''Lambda_QCD_1GeV'', ''C_gyro''}"
    unfolding cqs_full_1614 calc_zdc_fresh_1614 by auto
qed

lemma qcd_both_exact:
  assumes v: "verify_qcd_scale (exact_lib S) p c = (Inr E1, c1)"
    and k: "compute_qcd_scale (exact_lib S) p c = (Inr E2, c2)"
  shows "c1 ''C_gyro'' = Some C_gyro_exact" and "c2 ''C_gyro'' = Some C_gyro_exact"
    and "\<exists>B1. c1 ''Lambda_QCD_bare'' = Some B1 \<and> E1 = B1 * exp (- (2 * pi / 11))"
    and "\<exists>B2. c2 ''Lambda_QCD_bare'' = Some B2 \<and> E2 = B2 * exp (pi / 9)"
proof -
  from vqs_Inr [OF v] obtain d C B where
    q: "qcd_scale (\<lambda>x. x) (\<lambda>x. x) = Inr (C, B, E1)"
    and c1: "c1 = d(''C_gyro'' \<mapsto> C, ''Lambda_QCD_bare'' \<mapsto> B, ''Lambda_QCD_1GeV'' \<mapsto> E1)"
    by auto
  from q have "C = C_gyro_exact" "E1 = B * exp (- (2 * pi / 11))"
    by (auto simp only: qcd_scale_exact sum.inject prod.inject)
  with c1 show "c1 ''C_gyro'' = Some C_gyro_exact"
    and "\<exists>B1. c1 ''Lambda_QCD_bare'' = Some B1 \<and> E1 = B1 * exp (- (2 * pi / 11))"
    by simp_all
  from cqs_Inr [OF k] obtain d' a C' B' where
    q': "calc_qcd_scale (\<lambda>x. x) (\<lambda>x. x) a = Inr (C', B', E2)"
    and c2: "c2 = d'(''Lambda_QCD_bare'' \<mapsto> B', ''Lambda_QCD_1GeV'' \<mapsto> E2, ''C_gyro'' \<mapsto> C')"
    by auto
  from q' have "C' = C_gyro_exact" "E2 = B' * exp (pi / 9)"
    by (auto simp only: calc_qcd_scale_exact sum.inject prod.inject split: if_splits)
  with c2 show "c2 ''C_gyro'' = Some C_gyro_exact"
    and "\<exists>B2. c2 ''Lambda_QCD_bare'' = Some B2 \<and> E2 = B2 * exp (pi / 9)"
    by simp_all
qed

text \<open>
  Claim C3, as amended. In exact arithmetic, whenever both implementations return from the
  same dictionary, they store the same \<open>C_gyro\<close>. Each stores as \<open>Lambda_QCD_1GeV\<close> its
  own bare scale times a factor of its own: \<open>exp (2 pi / (b0 (1/1.0 - 1/0.45)))\<close>, which is
  \<open>exp (- 2 pi / 11)\<close>, in \<open>verify_qcd_scale\<close>, and \<open>exp (2 pi / (b0 * 2))\<close>, which is
  \<open>exp (pi / 9)\<close>, in \<open>compute_qcd_scale\<close> (\<open>b0 = 9\<close>).
\<close>

theorem qcd_implementations_compared:
  "verify_qcd_scale (exact_lib S) p c = (Inr E1, c1) \<and>
   compute_qcd_scale (exact_lib S) p c = (Inr E2, c2) \<longrightarrow>
     c1 ''C_gyro'' = Some C_gyro_exact \<and> c2 ''C_gyro'' = Some C_gyro_exact \<and>
     (\<exists>B1. c1 ''Lambda_QCD_bare'' = Some B1 \<and> E1 = B1 * exp (- (2 * pi / 11))) \<and>
     (\<exists>B2. c2 ''Lambda_QCD_bare'' = Some B2 \<and> E2 = B2 * exp (pi / 9))"
  using qcd_both_exact [of S p c E1 c1 E2 c2] by blast

theorem qcd_implementations_compared_witness:
  "\<exists>E1 c1 E2 c2.
     verify_qcd_scale (exact_lib (fixed_root 1.614)) 100 Map.empty = (Inr E1, c1) \<and>
     compute_qcd_scale (exact_lib (fixed_root 1.614)) 100 Map.empty = (Inr E2, c2) \<and>
     c1 ''C_gyro'' = Some C_gyro_exact \<and> c2 ''C_gyro'' = Some C_gyro_exact \<and>
     (\<exists>B1. c1 ''Lambda_QCD_bare'' = Some B1 \<and> E1 = B1 * exp (- (2 * pi / 11))) \<and>
     (\<exists>B2. c2 ''Lambda_QCD_bare'' = Some B2 \<and> E2 = B2 * exp (pi / 9))"
proof -
  let ?L = "exact_lib (fixed_root 1.614)"
  obtain E1 c1 where 1: "verify_qcd_scale ?L 100 Map.empty = (Inr E1, c1)"
    using vqs_fresh_1614 by blast
  obtain E2 c2 where 2: "compute_qcd_scale ?L 100 Map.empty = (Inr E2, c2)"
    using cqs_full_1614 by blast
  from qcd_implementations_compared [of "fixed_root 1.614" 100 Map.empty E1 c1 E2 c2] 1 2
  show ?thesis by blast
qed

lemma exp_factors_differ:
  fixes B :: real
  assumes "0 < B"
  shows "B * exp (- (2 * pi / 11)) \<noteq> B * exp (pi / 9)"
proof -
  have "- (2 * pi / 11) < pi / 9"
    using pi_gt_zero by linarith
  then have "exp (- (2 * pi / 11)) < exp (pi / 9)"
    by (simp only: exp_less_cancel_iff)
  then have "B * exp (- (2 * pi / 11)) < B * exp (pi / 9)"
    using assms by (rule mult_strict_left_mono)
  then show ?thesis by (rule less_imp_neq)
qed

text \<open>
  The claim as stated fails on \<open>matching_cache\<close>, where the cached prediction is the CODATA
  literal itself: the two bare scales are then equal, and the two evolved scales differ.
\<close>

theorem qcd_implementations_differ_counterexample:
  "snd (verify_qcd_scale (exact_lib (fixed_root 1.614)) 100 matching_cache) ''Lambda_QCD_bare''
     = snd (compute_qcd_scale (exact_lib (fixed_root 1.614)) 100 matching_cache) ''Lambda_QCD_bare'' \<and>
   snd (verify_qcd_scale (exact_lib (fixed_root 1.614)) 100 matching_cache) ''Lambda_QCD_1GeV''
     \<noteq> snd (compute_qcd_scale (exact_lib (fixed_root 1.614)) 100 matching_cache) ''Lambda_QCD_1GeV''"
proof -
  let ?L = "exact_lib (fixed_root 1.614)"
  let ?B = "510998.95 * 137.035999084 * C_gyro_exact / 10 ^ 6"
  have g: "matching_cache ''G'' \<noteq> None"
    and a: "matching_cache ''alpha_inv_pred'' = Some 137.035999084"
    and a0: "137.035999084 \<noteq> (0::real)"
    by (simp_all add: matching_cache_def)
  have B: "0 < ?B"
    using C_gyro_exact_pos by simp
  have v: "snd (verify_qcd_scale ?L 100 matching_cache) ''Lambda_QCD_bare'' = Some ?B"
    "snd (verify_qcd_scale ?L 100 matching_cache) ''Lambda_QCD_1GeV''
       = Some (?B * exp (- (2 * pi / 11)))"
    unfolding vqs_exact [of matching_cache "fixed_root 1.614" 100, OF g] by simp_all
  have k: "snd (compute_qcd_scale ?L 100 matching_cache) ''Lambda_QCD_bare'' = Some ?B"
    "snd (compute_qcd_scale ?L 100 matching_cache) ''Lambda_QCD_1GeV''
       = Some (?B * exp (pi / 9))"
    unfolding cqs_exact [of matching_cache "137.035999084" "fixed_root 1.614" 100, OF a a0]
    by simp_all
  show ?thesis
    unfolding v k using exp_factors_differ [OF B] by (simp only: option.inject simp_thms)
qed

lemma scaled_neq:
  fixes a b C :: real
  assumes "a < b" and "0 < C"
  shows "510998.95 * b * C / 10 ^ 6 \<noteq> 510998.95 * a * C / 10 ^ 6"
  using assms by simp

text \<open>
  Claim C4 holds for \<open>compute_qcd_scale\<close> and fails for \<open>verify_qcd_scale\<close>, which takes
  alpha from the literal 137.035999084. On a fresh \<open>BSMVerification\<close> whose root finder
  returns 1.614, after \<open>verify_zdc\<close> the cached prediction is below the literal, and the
  bare scale stored by \<open>verify_qcd_scale\<close> is the one computed from the literal, not from
  the prediction; \<open>compute_qcd_scale\<close> stores the one computed from the prediction.
\<close>

theorem verify_qcd_scale_ignores_prediction:
  "snd (verify_zdc (exact_lib (fixed_root 1.614)) 100 Map.empty) ''alpha_inv_pred''
     = Some (1836.15267343 * (1 / (exp 1 * pi * sqrt 2 * 1.614))) \<and>
   snd (verify_qcd_scale (exact_lib (fixed_root 1.614)) 100
          (snd (verify_zdc (exact_lib (fixed_root 1.614)) 100 Map.empty))) ''Lambda_QCD_bare''
     = Some (510998.95 * 137.035999084 * C_gyro_exact / 10 ^ 6) \<and>
   510998.95 * 137.035999084 * C_gyro_exact / 10 ^ 6
     \<noteq> 510998.95 * (1836.15267343 * (1 / (exp 1 * pi * sqrt 2 * 1.614))) * C_gyro_exact / 10 ^ 6 \<and>
   snd (compute_qcd_scale (exact_lib (fixed_root 1.614)) 100 Map.empty) ''Lambda_QCD_bare''
     = Some (510998.95 * (1836.15267343 * (1 / (exp 1 * pi * sqrt 2 * 1.614))) * C_gyro_exact / 10 ^ 6)"
proof -
  let ?L = "exact_lib (fixed_root 1.614)"
  let ?G = "1 / (exp 1 * pi * sqrt 2 * 1.614)"
  let ?a = "1836.15267343 * ?G"
  have g: "ensure ''G'' (verify_geometric_coupling ?L 100) Map.empty =
      (Inr (),
       [''epsilon_BSM'' \<mapsto> 4.350917 / 10 ^ 14, ''T_eq'' \<mapsto> 1.614,
        ''log_term'' \<mapsto> ln (1 + exp 1 / pi), ''G'' \<mapsto> ?G,
        ''G_target'' \<mapsto> 0.074660340411, ''G_error'' \<mapsto> \<bar>?G - 0.074660340411\<bar>])"
    by (simp add: ensure_def vgc_exact_fresh fixed_root_def)
  have z: "snd (verify_zdc ?L 100 Map.empty) ''alpha_inv_pred'' = Some ?a"
    and zG: "snd (verify_zdc ?L 100 Map.empty) ''G'' \<noteq> None"
    unfolding verify_zdc_def g by (simp_all add: Let_def mp_defs)
  have q: "snd (verify_qcd_scale ?L 100 (snd (verify_zdc ?L 100 Map.empty))) ''Lambda_QCD_bare''
     = Some (510998.95 * 137.035999084 * C_gyro_exact / 10 ^ 6)"
    unfolding vqs_exact [of "snd (verify_zdc ?L 100 Map.empty)" "fixed_root 1.614" 100, OF zG]
    by simp
  have ne: "510998.95 * 137.035999084 * C_gyro_exact / 10 ^ 6
     \<noteq> 510998.95 * ?a * C_gyro_exact / 10 ^ 6"
    by (rule scaled_neq [OF prediction_below_CODATA C_gyro_exact_pos])
  have k: "snd (compute_qcd_scale ?L 100 Map.empty) ''Lambda_QCD_bare''
     = Some (510998.95 * ?a * C_gyro_exact / 10 ^ 6)"
    unfolding cqs_full_1614 by simp
  from z q ne k show ?thesis by blast
qed

section \<open>Values once written stay\<close>

lemma settled_empty: "settled canon Map.empty"
  by (simp add: settled_def)

lemma settled_upd: "settled canon c \<Longrightarrow> canon k = Inr v \<Longrightarrow> settled canon (c(k \<mapsto> v))"
  by (simp add: settled_def)

lemma settledD: "settled canon c \<Longrightarrow> c k = Some v \<Longrightarrow> canon k = Inr v"
  by (simp add: settled_def)

lemma canon_verification_keys:
  "canon_verification L p ''epsilon_BSM'' = Inr (mpf (rnd L p) (4.350917 / 10 ^ 14))"
  "canon_verification L p ''T_eq'' = root L p"
  "canon_verification L p ''log_term'' = log_term (rnd L p)"
  "canon_verification L p ''G'' = bind_err (root L p) (geometric_coupling (rnd L p))"
  by (simp_all add: canon_verification_def Let_def)

lemma settled_vte:
  assumes "settled (canon_verification L p) c"
  shows "settled (canon_verification L p) (snd (verify_transcendental_equation L p c))"
proof (cases "verify_transcendental_equation L p c")
  case (Pair res c')
  show ?thesis
  proof (cases res)
    case (Inl err)
    with Pair vte_Inl [of L p c err c'] assms show ?thesis by auto
  next
    case (Inr x)
    obtain T eps where x: "x = (T, eps)" by (cases x)
    from vte_Inr [of L p c T eps c'] Pair Inr x obtain lt where
      "eps = mpf (rnd L p) (4.350917 / 10 ^ 14)" "root L p = Inr T" "log_term (rnd L p) = Inr lt"
      "c' = c(''epsilon_BSM'' \<mapsto> eps, ''T_eq'' \<mapsto> T, ''log_term'' \<mapsto> lt)"
      by (auto simp: root_def)
    with assms Pair show ?thesis
      by (auto intro!: settled_upd simp: canon_verification_keys)
  qed
qed


lemma settled_ensure:
  "settled canon c \<Longrightarrow> settled canon (snd (up c)) \<Longrightarrow> settled canon (snd (ensure k up c))"
  by (auto simp: ensure_def split: prod.splits sum.splits)

lemma settled_vgc:
  assumes "settled (canon_verification L p) c"
  shows "settled (canon_verification L p) (snd (verify_geometric_coupling L p c))"
proof -
  let ?K = "canon_verification L p"
  obtain res c1 where e: "ensure ''T_eq'' (verify_transcendental_equation L p) c = (res, c1)"
    by (cases "ensure ''T_eq'' (verify_transcendental_equation L p) c")
  have s1: "settled ?K c1"
    using settled_ensure [of ?K c "verify_transcendental_equation L p" "''T_eq''",
        OF assms settled_vte [OF assms]] e by simp
  show ?thesis
  proof (cases "verify_geometric_coupling L p c")
    case (Pair out c')
    show ?thesis
    proof (cases out)
      case (Inl err)
      with Pair e s1 have "c' = c1"
        by (auto simp: verify_geometric_coupling_def Let_def split: sum.splits option.splits)
      with s1 Pair show ?thesis by simp
    next
      case (Inr G)
      from vgc_Inr_full [of L p c G c'] Pair Inr e obtain T where
        T: "c1 ''T_eq'' = Some T" "geometric_coupling (rnd L p) T = Inr G"
        and c': "c' = c1(''G'' \<mapsto> G, ''G_target'' \<mapsto> mpf (rnd L p) 0.074660340411,
               ''G_error'' \<mapsto>
                 mp_abs (rnd L p) (mp_sub (rnd L p) G (mpf (rnd L p) 0.074660340411)))"
        by auto
      from settledD [OF s1 T(1)] have R: "root L p = Inr T"
        by (simp add: canon_verification_keys)
      have "settled ?K c'"
        unfolding c' using s1 R T(2)
        by (auto intro!: settled_upd simp: canon_verification_def Let_def bind_err_def)
      with Pair show ?thesis by simp
    qed
  qed
qed

lemma canon_G:
  assumes "settled (canon_verification L p) c" and "c ''G'' = Some G"
  shows "bind_err (root L p) (geometric_coupling (rnd L p)) = Inr G"
  using settledD [OF assms] by (simp add: canon_verification_keys)

lemma settled_ensure_G:
  assumes "settled (canon_verification L p) c"
    and "ensure ''G'' (verify_geometric_coupling L p) c = (res, c1)"
  shows "settled (canon_verification L p) c1"
  using settled_ensure [of "canon_verification L p" c "verify_geometric_coupling L p" "''G''",
      OF assms(1) settled_vgc [OF assms(1)]] assms(2) by simp

lemma settled_zdc:
  assumes "settled (canon_verification L p) c"
  shows "settled (canon_verification L p) (snd (verify_zdc L p c))"
proof -
  let ?K = "canon_verification L p"
  obtain res c1 where e: "ensure ''G'' (verify_geometric_coupling L p) c = (res, c1)"
    by (cases "ensure ''G'' (verify_geometric_coupling L p) c")
  note s1 = settled_ensure_G [OF assms e]
  show ?thesis
    using e s1 canon_G [OF s1]
    by (auto simp: verify_zdc_def Let_def canon_verification_def bind_err_def
        split: sum.splits option.splits intro!: settled_upd)
qed

lemma settled_qcd:
  assumes "settled (canon_verification L p) c"
  shows "settled (canon_verification L p) (snd (verify_qcd_scale L p c))"
proof -
  obtain res c1 where e: "ensure ''G'' (verify_geometric_coupling L p) c = (res, c1)"
    by (cases "ensure ''G'' (verify_geometric_coupling L p) c")
  note s1 = settled_ensure_G [OF assms e]
  show ?thesis
    using e s1
    by (auto simp: verify_qcd_scale_def Let_def canon_verification_def bind_err_def
        split: sum.splits option.splits prod.splits intro!: settled_upd)
qed

lemma settled_grav:
  assumes "settled (canon_verification L p) c"
  shows "settled (canon_verification L p) (snd (verify_gravitational_constant L p c))"
proof -
  let ?K = "canon_verification L p"
  let ?r = "rnd L p"
  obtain res c1 where e: "ensure ''G'' (verify_geometric_coupling L p) c = (res, c1)"
    by (cases "ensure ''G'' (verify_geometric_coupling L p) c")
  note s1 = settled_ensure_G [OF assms e]
  show ?thesis
  proof (cases "verify_gravitational_constant L p c")
    case (Pair out c')
    show ?thesis
    proof (cases out)
      case (Inl err)
      with Pair e have "c' = c1"
        by (auto simp: verify_gravitational_constant_def Let_def
            split: sum.splits option.splits prod.splits)
      with s1 Pair show ?thesis by simp
    next
      case (Inr x)
      from Pair Inr e obtain G T M_s G_pred where
        G: "c1 ''G'' = Some G" and T: "c1 ''T_eq'' = Some T"
        and v: "gravitational_values ?r G T = Inr (M_s, G_pred)"
        and c': "c' = c1(''M_s'' \<mapsto> M_s, ''G_pred'' \<mapsto> G_pred,
                     ''G_CODATA'' \<mapsto> mpf ?r (6.67430 / 10 ^ 11),
                     ''Gdot_over_G'' \<mapsto> mp_neg ?r (mpf ?r (0.8 / 10 ^ 12)))"
        by (auto simp: verify_gravitational_constant_def gravitational_values_def Let_def
            split: sum.splits option.splits prod.splits)
      from settledD [OF s1 T] have R: "root L p = Inr T"
        by (simp add: canon_verification_keys)
      from canon_G [OF s1 G] R have gc: "geometric_coupling ?r T = Inr G"
        by (simp add: bind_err_def)
      have "settled ?K c'"
        unfolding c' using s1 R gc v
        by (auto intro!: settled_upd simp: canon_verification_def Let_def bind_err_def)
      with Pair show ?thesis by simp
    qed
  qed
qed

lemma canon_calculator_keys:
  "canon_calculator L K p ''T_eq'' = root L p"
  "canon_calculator L K p ''G'' = bind_err (root L p) (geometric_coupling (rnd L p))"
  "canon_calculator L K p ''alpha_inv_pred'' =
     bind_err (bind_err (root L p) (geometric_coupling (rnd L p)))
       (\<lambda>G. Inr (mp_mul (rnd L p) (mpf (rnd L p) 1836.15267343) G))"
  by (simp_all add: canon_calculator_def Let_def)

lemma settled_cgf:
  assumes "settled (canon_calculator L K p) c"
  shows "settled (canon_calculator L K p) (snd (compute_geometric_factors L p c))"
proof (cases "compute_geometric_factors L p c")
  case (Pair res c')
  show ?thesis
  proof (cases res)
    case (Inl err)
    with Pair cgf_Inl [of L p c err c'] assms show ?thesis by auto
  next
    case (Inr x)
    obtain T G where x: "x = (T, G)" by (cases x)
    from cgf_Inr [of L p c T G c'] Pair Inr x have
      "root L p = Inr T" "geometric_coupling (rnd L p) T = Inr G"
      "c' = c(''T_eq'' \<mapsto> T, ''G'' \<mapsto> G,
            ''epsilon_BSM'' \<mapsto> mpf (rnd L p) (4.350917 / 10 ^ 14))"
      by (auto simp: root_def)
    with assms Pair show ?thesis
      by (auto intro!: settled_upd simp: canon_calculator_def Let_def bind_err_def)
  qed
qed

lemma settled_ensure_cgf:
  assumes "settled (canon_calculator L K p) c"
    and "ensure ''G'' (compute_geometric_factors L p) c = (res, c1)"
  shows "settled (canon_calculator L K p) c1"
  using settled_ensure [of "canon_calculator L K p" c "compute_geometric_factors L p" "''G''",
      OF assms(1) settled_cgf [OF assms(1)]] assms(2) by simp

lemma canon_calc_G:
  assumes "settled (canon_calculator L K p) c" and "c ''G'' = Some G"
  shows "bind_err (root L p) (geometric_coupling (rnd L p)) = Inr G"
  using settledD [OF assms] by (simp add: canon_calculator_keys)

lemma settled_czdc:
  assumes "settled (canon_calculator L K p) c"
  shows "settled (canon_calculator L K p) (snd (calc_verify_zdc L p c))"
proof -
  obtain res c1 where e: "ensure ''G'' (compute_geometric_factors L p) c = (res, c1)"
    by (cases "ensure ''G'' (compute_geometric_factors L p) c")
  note s1 = settled_ensure_cgf [OF assms e]
  show ?thesis
    using e s1 canon_calc_G [OF s1]
    by (auto simp: calc_verify_zdc_def Let_def canon_calculator_def bind_err_def
        split: sum.splits option.splits intro!: settled_upd)
qed

lemma settled_cqcd:
  assumes "settled (canon_calculator L K p) c"
  shows "settled (canon_calculator L K p) (snd (compute_qcd_scale L p c))"
proof -
  let ?K = "canon_calculator L K p"
  obtain res c1 where e: "ensure ''alpha_inv_pred'' (calc_verify_zdc L p) c = (res, c1)"
    by (cases "ensure ''alpha_inv_pred'' (calc_verify_zdc L p) c")
  have s1: "settled ?K c1"
    using settled_ensure [of ?K c "calc_verify_zdc L p" "''alpha_inv_pred''",
        OF assms settled_czdc [OF assms]] e by simp
  show ?thesis
  proof (cases "compute_qcd_scale L p c")
    case (Pair out c')
    show ?thesis
    proof (cases out)
      case (Inl err)
      with Pair e have "c' = c1"
        by (auto simp: compute_qcd_scale_def split: sum.splits prod.splits)
      with s1 Pair show ?thesis by simp
    next
      case (Inr x)
      from cqs_Inr [of L p c x c'] Pair Inr e obtain a C B where
        a: "c1 ''alpha_inv_pred'' = Some a"
        and q: "calc_qcd_scale (rnd L p) (flt L) a = Inr (C, B, x)"
        and c': "c' = c1(''Lambda_QCD_bare'' \<mapsto> B, ''Lambda_QCD_1GeV'' \<mapsto> x, ''C_gyro'' \<mapsto> C)"
        by auto
      from settledD [OF s1 a] obtain G where
        G: "bind_err (root L p) (geometric_coupling (rnd L p)) = Inr G"
        and aG: "a = mp_mul (rnd L p) (mpf (rnd L p) 1836.15267343) G"
        by (auto simp: canon_calculator_keys bind_err_Inr)
      have "settled ?K c'"
        unfolding c' using s1 G aG q
        by (auto intro!: settled_upd simp: canon_calculator_def Let_def bind_err_def)
      with Pair show ?thesis by simp
    qed
  qed
qed

lemma cgrav_cases:
  assumes "compute_gravitational_constant L K p c = (out, c')"
    and "ensure ''G'' (compute_geometric_factors L p) c = (res, c1)"
  shows "(c' = c1 \<and> (\<exists>err. out = Inl err)) \<or>
         (\<exists>G T M_s G_pred. c1 ''G'' = Some G \<and> c1 ''T_eq'' = Some T \<and>
            calc_gravitational_values (rnd L p) (flt L) K G T = Inr (M_s, G_pred) \<and>
            c' = c1(''G_pred'' \<mapsto> G_pred,
                    ''Gdot_over_G'' \<mapsto> mp_neg (rnd L p) (mpf (rnd L p) (0.8 / 10 ^ 12)),
                    ''M_s'' \<mapsto> M_s))"
proof (cases "compute_gravitational_constant L K p c = (out, c1)")
  case True
  with assms(1) have c': "c' = c1" by simp
  show ?thesis
  proof (cases out)
    case (Inl err)
    with c' show ?thesis by simp
  next
    case (Inr x)
    with assms c' show ?thesis
      by (simp add: compute_gravitational_constant_def calc_gravitational_values_def Let_def
          split: sum.splits option.splits prod.splits)
  qed
next
  case False
  with assms obtain G T where G: "c1 ''G'' = Some G" and T: "c1 ''T_eq'' = Some T"
    by (auto simp: compute_gravitational_constant_def Let_def
        split: sum.splits option.splits)
  from False assms G T obtain M_s G_pred where
    v: "calc_gravitational_values (rnd L p) (flt L) K G T = Inr (M_s, G_pred)"
    by (cases "calc_gravitational_values (rnd L p) (flt L) K G T")
       (auto simp: compute_gravitational_constant_def calc_gravitational_values_def Let_def
        split: sum.splits)
  from False assms G T v have "c' = c1(''G_pred'' \<mapsto> G_pred,
                    ''Gdot_over_G'' \<mapsto> mp_neg (rnd L p) (mpf (rnd L p) (0.8 / 10 ^ 12)),
                    ''M_s'' \<mapsto> M_s)"
    by (auto simp: compute_gravitational_constant_def calc_gravitational_values_def Let_def
        split: sum.splits)
  with G T v show ?thesis by blast
qed

lemma settled_cgrav:
  assumes "settled (canon_calculator L K p) c"
  shows "settled (canon_calculator L K p) (snd (compute_gravitational_constant L K p c))"
proof -
  let ?K = "canon_calculator L K p"
  let ?r = "rnd L p"
  obtain res c1 where e: "ensure ''G'' (compute_geometric_factors L p) c = (res, c1)"
    by (cases "ensure ''G'' (compute_geometric_factors L p) c")
  note s1 = settled_ensure_cgf [OF assms e]
  obtain out c' where run: "compute_gravitational_constant L K p c = (out, c')"
    by (cases "compute_gravitational_constant L K p c")
  from cgrav_cases [OF run e] have "settled ?K c'"
  proof
    assume "c' = c1 \<and> (\<exists>err. out = Inl err)"
    with s1 show ?thesis by simp
  next
    assume "\<exists>G T M_s G_pred. c1 ''G'' = Some G \<and> c1 ''T_eq'' = Some T \<and>
            calc_gravitational_values ?r (flt L) K G T = Inr (M_s, G_pred) \<and>
            c' = c1(''G_pred'' \<mapsto> G_pred,
                    ''Gdot_over_G'' \<mapsto> mp_neg ?r (mpf ?r (0.8 / 10 ^ 12)),
                    ''M_s'' \<mapsto> M_s)"
    then obtain G T M_s G_pred where
      G: "c1 ''G'' = Some G" and T: "c1 ''T_eq'' = Some T"
      and v: "calc_gravitational_values ?r (flt L) K G T = Inr (M_s, G_pred)"
      and c': "c' = c1(''G_pred'' \<mapsto> G_pred,
                   ''Gdot_over_G'' \<mapsto> mp_neg ?r (mpf ?r (0.8 / 10 ^ 12)),
                   ''M_s'' \<mapsto> M_s)"
      by blast
    from settledD [OF s1 T] have R: "root L p = Inr T"
      by (simp add: canon_calculator_keys)
    from canon_calc_G [OF s1 G] R have gc: "geometric_coupling ?r T = Inr G"
      by (simp add: bind_err_def)
    show "settled ?K c'"
      unfolding c' using s1 R gc v
      by (auto intro!: settled_upd simp: canon_calculator_def Let_def bind_err_def)
  qed
  with run show ?thesis by simp
qed

lemma kept_refl: "kept c c"
  by (simp add: kept_def)

lemma kept_trans: "kept c c' \<Longrightarrow> kept c' c'' \<Longrightarrow> kept c c''"
  by (simp add: kept_def)

lemma writes_kept: "writes W c c' \<Longrightarrow> kept c c'"
  by (simp add: writes_def kept_def)

lemma run_all_chain:
  "\<exists>c1 c2 c3 c4.
     c1 = snd (verify_transcendental_equation L p c) \<and>
     c2 = snd (verify_geometric_coupling L p c1) \<and>
     c3 = snd (verify_zdc L p c2) \<and>
     c4 = snd (verify_qcd_scale L p c3) \<and>
     snd (run_all_verifications L p c)
       \<in> {c1, c2, c3, c4, snd (verify_gravitational_constant L p c4)}"
  by (auto simp: run_all_verifications_def split: prod.splits sum.splits)

lemma settled_run_all:
  assumes "settled (canon_verification L p) c"
  shows "settled (canon_verification L p) (snd (run_all_verifications L p c))"
proof -
  from run_all_chain [of L p c] obtain c1 c2 c3 c4 where
    c: "c1 = snd (verify_transcendental_equation L p c)"
       "c2 = snd (verify_geometric_coupling L p c1)"
       "c3 = snd (verify_zdc L p c2)"
       "c4 = snd (verify_qcd_scale L p c3)"
    and r: "snd (run_all_verifications L p c)
       \<in> {c1, c2, c3, c4, snd (verify_gravitational_constant L p c4)}"
    by blast
  have 1: "settled (canon_verification L p) c1" unfolding c by (rule settled_vte [OF assms])
  have 2: "settled (canon_verification L p) c2" unfolding c(2) by (rule settled_vgc [OF 1])
  have 3: "settled (canon_verification L p) c3" unfolding c(3) by (rule settled_zdc [OF 2])
  have 4: "settled (canon_verification L p) c4" unfolding c(4) by (rule settled_qcd [OF 3])
  note 5 = settled_grav [OF 4]
  from r 1 2 3 4 5 show ?thesis by auto
qed

lemma kept_run_all: "kept c (snd (run_all_verifications L p c))"
proof -
  from run_all_chain [of L p c] obtain c1 c2 c3 c4 where
    c: "c1 = snd (verify_transcendental_equation L p c)"
       "c2 = snd (verify_geometric_coupling L p c1)"
       "c3 = snd (verify_zdc L p c2)"
       "c4 = snd (verify_qcd_scale L p c3)"
    and r: "snd (run_all_verifications L p c)
       \<in> {c1, c2, c3, c4, snd (verify_gravitational_constant L p c4)}"
    by blast
  have 1: "kept c c1" unfolding c by (rule writes_kept [OF writes_vte])
  have 2: "kept c c2" using 1 writes_kept [OF writes_vgc, of c1 L p] c(2) kept_trans by blast
  have 3: "kept c c3" using 2 writes_kept [OF writes_zdc, of c2 L p] c(3) kept_trans by blast
  have 4: "kept c c4" using 3 writes_kept [OF writes_qcd, of c3 L p] c(4) kept_trans by blast
  have 5: "kept c (snd (verify_gravitational_constant L p c4))"
    using 4 writes_kept [OF writes_grav, of c4 L p] kept_trans by blast
  from r 1 2 3 4 5 show ?thesis by auto
qed

lemma run_complete_chain:
  "\<exists>c1 c2 c3.
     c1 = snd (compute_geometric_factors L p c) \<and>
     c2 = snd (calc_verify_zdc L p c1) \<and>
     c3 = snd (compute_qcd_scale L p c2) \<and>
     snd (run_complete_analysis L K p c)
       \<in> {c1, c2, c3, snd (compute_gravitational_constant L K p c3)}"
  by (auto simp: run_complete_analysis_def split: prod.splits sum.splits)

lemma settled_run_complete:
  assumes "settled (canon_calculator L K p) c"
  shows "settled (canon_calculator L K p) (snd (run_complete_analysis L K p c))"
proof -
  from run_complete_chain [of L p c K] obtain c1 c2 c3 where
    c: "c1 = snd (compute_geometric_factors L p c)"
       "c2 = snd (calc_verify_zdc L p c1)"
       "c3 = snd (compute_qcd_scale L p c2)"
    and r: "snd (run_complete_analysis L K p c)
       \<in> {c1, c2, c3, snd (compute_gravitational_constant L K p c3)}"
    by blast
  have 1: "settled (canon_calculator L K p) c1" unfolding c by (rule settled_cgf [OF assms])
  have 2: "settled (canon_calculator L K p) c2" unfolding c(2) by (rule settled_czdc [OF 1])
  have 3: "settled (canon_calculator L K p) c3" unfolding c(3) by (rule settled_cqcd [OF 2])
  note 4 = settled_cgrav [OF 3]
  from r 1 2 3 4 show ?thesis by auto
qed

lemma kept_run_complete: "kept c (snd (run_complete_analysis L K p c))"
proof -
  from run_complete_chain [of L p c K] obtain c1 c2 c3 where
    c: "c1 = snd (compute_geometric_factors L p c)"
       "c2 = snd (calc_verify_zdc L p c1)"
       "c3 = snd (compute_qcd_scale L p c2)"
    and r: "snd (run_complete_analysis L K p c)
       \<in> {c1, c2, c3, snd (compute_gravitational_constant L K p c3)}"
    by blast
  have 1: "kept c c1" unfolding c by (rule writes_kept [OF writes_cgf])
  have 2: "kept c c2" using 1 writes_kept [OF writes_czdc, of c1 L p] c(2) kept_trans by blast
  have 3: "kept c c3" using 2 writes_kept [OF writes_cqcd, of c2 L p] c(3) kept_trans by blast
  have 4: "kept c (snd (compute_gravitational_constant L K p c3))"
    using 3 writes_kept [OF writes_cgrav, of c3 L K p] kept_trans by blast
  from r 1 2 3 4 show ?thesis by auto
qed

lemma settled_invoke_verification:
  "settled (canon_verification L p) c \<Longrightarrow>
     settled (canon_verification L p) (invoke_verification L p m c)"
  by (cases m) (simp_all add: settled_vte settled_vgc settled_zdc settled_qcd settled_grav
      settled_run_all)

lemma kept_invoke_verification: "kept c (invoke_verification L p m c)"
  by (cases m)
    (simp_all add: kept_run_all writes_kept [OF writes_vte] writes_kept [OF writes_vgc]
      writes_kept [OF writes_zdc] writes_kept [OF writes_qcd] writes_kept [OF writes_grav])

lemma settled_invoke_calculator:
  "settled (canon_calculator L K p) c \<Longrightarrow>
     settled (canon_calculator L K p) (invoke_calculator L K p m c)"
  by (cases m) (simp_all add: settled_cgf settled_czdc settled_cqcd settled_cgrav
      settled_run_complete)

lemma kept_invoke_calculator: "kept c (invoke_calculator L K p m c)"
  by (cases m)
    (simp_all add: kept_run_complete writes_kept [OF writes_cgf] writes_kept [OF writes_czdc]
      writes_kept [OF writes_cqcd] writes_kept [OF writes_cgrav])

lemma fold_settled:
  assumes step: "\<And>m c. settled canon c \<Longrightarrow> settled canon (f m c)"
  shows "settled canon c \<Longrightarrow> settled canon (fold f ms c)"
  by (induction ms arbitrary: c) (simp_all add: step)

lemma fold_kept:
  assumes step: "\<And>m c. kept c (f m c)"
  shows "kept c (fold f ms c)"
proof (induction ms arbitrary: c)
  case Nil
  show ?case by (simp add: kept_refl)
next
  case (Cons m ms)
  have "kept c (f m c)" by (rule step)
  moreover have "kept (f m c) (fold f ms (f m c))" by (rule Cons.IH)
  ultimately show ?case by (simp add: kept_trans [of c "f m c"])
qed

lemma value_fixed:
  assumes "settled canon c" and "settled canon c'" and "kept c c'" and "c k = Some v"
  shows "c' k = Some v"
proof -
  from assms(3,4) obtain v' where v': "c' k = Some v'"
    by (auto simp: kept_def)
  from settledD [OF assms(1,4)] settledD [OF assms(2) v'] have "v' = v" by simp
  with v' show ?thesis by simp
qed

text \<open>
  Claim C9, as amended. On one instance, while the process-wide precision stays the same
  (no pipeline instance is constructed in between), take any sequence of method calls from
  the empty dictionary (stages and the driver, in any order, continuing after exceptions),
  under any library. A key that holds a value after that sequence holds the same value
  after any further sequence of calls: a later write to the key writes the same value
  back, and no call removes a key.
\<close>

theorem cached_values_never_change:
  "(fold (invoke_verification L p) ms Map.empty k = Some v \<longrightarrow>
      fold (invoke_verification L p) ms' (fold (invoke_verification L p) ms Map.empty) k = Some v) \<and>
   (fold (invoke_calculator L K p) ns Map.empty k = Some v \<longrightarrow>
      fold (invoke_calculator L K p) ns' (fold (invoke_calculator L K p) ns Map.empty) k = Some v)"
proof (intro conjI impI)
  let ?c = "fold (invoke_verification L p) ms Map.empty"
  assume v: "?c k = Some v"
  have 1: "settled (canon_verification L p) ?c"
    by (rule fold_settled [OF settled_invoke_verification settled_empty])
  have 2: "settled (canon_verification L p) (fold (invoke_verification L p) ms' ?c)"
    by (rule fold_settled [OF settled_invoke_verification 1])
  have 3: "kept ?c (fold (invoke_verification L p) ms' ?c)"
    by (rule fold_kept [OF kept_invoke_verification])
  show "fold (invoke_verification L p) ms' ?c k = Some v"
    by (rule value_fixed [OF 1 2 3 v])
next
  let ?c = "fold (invoke_calculator L K p) ns Map.empty"
  assume v: "?c k = Some v"
  have 1: "settled (canon_calculator L K p) ?c"
    by (rule fold_settled [OF settled_invoke_calculator settled_empty])
  have 2: "settled (canon_calculator L K p) (fold (invoke_calculator L K p) ns' ?c)"
    by (rule fold_settled [OF settled_invoke_calculator 1])
  have 3: "kept ?c (fold (invoke_calculator L K p) ns' ?c)"
    by (rule fold_kept [OF kept_invoke_calculator])
  show "fold (invoke_calculator L K p) ns' ?c k = Some v"
    by (rule value_fixed [OF 1 2 3 v])
qed

theorem cached_values_never_change_witness:
  "fold (invoke_verification (exact_lib (fixed_root 1.614)) 100) [Verify_zdc] Map.empty ''G''
     = Some (1 / (exp 1 * pi * sqrt 2 * 1.614)) \<and>
   fold (invoke_verification (exact_lib (fixed_root 1.614)) 100)
     [Verify_geometric_coupling, Verify_zdc, Run_all_verifications]
     (fold (invoke_verification (exact_lib (fixed_root 1.614)) 100) [Verify_zdc] Map.empty) ''G''
     = Some (1 / (exp 1 * pi * sqrt 2 * 1.614)) \<and>
   fold (invoke_calculator (exact_lib (fixed_root 1.614)) scipy_table 100)
     [Compute_geometric_factors] Map.empty ''G''
     = Some (1 / (exp 1 * pi * sqrt 2 * 1.614)) \<and>
   fold (invoke_calculator (exact_lib (fixed_root 1.614)) scipy_table 100)
     [Calc_verify_zdc, Compute_geometric_factors, Run_complete_analysis]
     (fold (invoke_calculator (exact_lib (fixed_root 1.614)) scipy_table 100)
        [Compute_geometric_factors] Map.empty) ''G''
     = Some (1 / (exp 1 * pi * sqrt 2 * 1.614))"
proof -
  let ?L = "exact_lib (fixed_root 1.614)"
  let ?g = "1 / (exp 1 * pi * sqrt 2 * 1.614)"
  have 1: "fold (invoke_verification ?L 100) [Verify_zdc] Map.empty ''G'' = Some ?g"
    by (simp add: verify_zdc_def ensure_def vgc_exact_fresh fixed_root_def mp_defs Let_def)
  have 2: "fold (invoke_calculator ?L scipy_table 100) [Compute_geometric_factors] Map.empty ''G''
      = Some ?g"
    by (simp add: cgf_exact fixed_root_def)
  from cached_values_never_change [of ?L 100 "[Verify_zdc]" "''G''" ?g
      "[Verify_geometric_coupling, Verify_zdc, Run_all_verifications]" scipy_table
      "[Compute_geometric_factors]"
      "[Calc_verify_zdc, Compute_geometric_factors, Run_complete_analysis]"] 1 2
  show ?thesis by blast
qed

lemma objs_call:
  "objs (snd (call m self w)) = (objs w)[self := snd (m (dps w) (objs w ! self))]"
  by (simp add: call_def split: prod.splits)

text \<open>
  The claim as stated fails when the precision changes during the lifetime of the
  instance: a \<open>BSMVerification\<close> is made with 50 digits and runs its solver stage, a second
  instance is made with 200 digits, and the first instance runs its solver stage again.
  With a root finder whose answer depends on the working precision, \<open>T_eq\<close> of the first
  instance is overwritten with a different value.
\<close>

theorem rerun_after_precision_change_counterexample:
  "(objs (snd (call (verify_transcendental_equation (exact_lib precision_root)) 0
                 (snd (BSMVerification_init 50 start)))) ! 0) ''T_eq''
     = Some (1.614 + 1 / 10 ^ 50) \<and>
   (objs (snd (call (verify_transcendental_equation (exact_lib precision_root)) 0
            (snd (BSMVerification_init 200
              (snd (call (verify_transcendental_equation (exact_lib precision_root)) 0
                 (snd (BSMVerification_init 50 start)))))))) ! 0) ''T_eq''
     = Some (1.614 + 1 / 10 ^ 200) \<and>
   (1.614 + 1 / 10 ^ 50 :: real) \<noteq> 1.614 + 1 / 10 ^ 200"
  by (simp add: objs_call vte_exact precision_root_def BSMVerification_init_def start_def)

section \<open>The substrate mass scale on every instance\<close>

lemma run_complete_exact:
  fixes T :: real and c :: cache and p :: nat
  assumes S: "findroot (exact_lib S) p (transcendental_eq (4.350917 / 10 ^ 14)) 1 = Inr T"
    and T: "T \<noteq> 0"
    and ne: "1836.15267343 * (1 / (exp 1 * pi * sqrt 2 * T)) \<noteq> 137.035999084"
    and K: "sc_c K \<noteq> 0" "sc_hbar K \<noteq> 0"
  shows "\<exists>d. run_complete_analysis (exact_lib S) K p c = (Inr d, d)"
proof -
  let ?L = "exact_lib S"
  let ?G = "1 / (exp 1 * pi * sqrt 2 * T)"
  let ?a = "1836.15267343 * ?G"
  let ?c1 = "c(''T_eq'' \<mapsto> T, ''G'' \<mapsto> ?G, ''epsilon_BSM'' \<mapsto> 4.350917 / 10 ^ 14)"
  let ?c2 = "?c1(''mu'' \<mapsto> 1836.15267343, ''alpha_inv_pred'' \<mapsto> ?a,
                 ''alpha_inv_CODATA'' \<mapsto> 137.035999084,
                 ''zdc_error'' \<mapsto> \<bar>?a - 137.035999084\<bar>,
                 ''zdc_rel_error'' \<mapsto> \<bar>?a - 137.035999084\<bar> / 137.035999084)"
  let ?B = "510998.95 * ?a * C_gyro_exact / 10 ^ 6"
  let ?c3 = "?c2(''Lambda_QCD_bare'' \<mapsto> ?B, ''Lambda_QCD_1GeV'' \<mapsto> ?B * exp (pi / 9),
                 ''C_gyro'' \<mapsto> C_gyro_exact)"
  have G0: "?G \<noteq> 0" using T by simp
  have a0: "?a \<noteq> 0" using T by simp
  have s1: "compute_geometric_factors ?L p c = (Inr (T, ?G), ?c1)"
    using S T by (simp add: cgf_exact)
  have g1: "?c1 ''G'' = Some ?G" by simp
  have s2: "calc_verify_zdc ?L p ?c1 =
      (Inr (?a, 137.035999084, \<bar>?a - 137.035999084\<bar>), ?c2)"
    unfolding calc_zdc_exact [of ?c1 ?G S p, OF g1] using ne by simp
  have a2: "?c2 ''alpha_inv_pred'' = Some ?a" by simp
  note s3 = cqs_exact [of ?c2 ?a S p, OF a2 a0]
  have g3: "?c3 ''G'' = Some ?G" and t3: "?c3 ''T_eq'' = Some T" by simp_all
  note s4 = cgrav_exact [of ?c3 ?G T K S p, OF g3 t3 G0 T K]
  show ?thesis
    by (simp only: run_complete_analysis_def s1 s2 s3 s4 prod.case sum.case) simp
qed

lemma vgrav_Inr_M_s:
  "verify_gravitational_constant L p c = (Inr x, c') \<Longrightarrow> \<exists>m. c' ''M_s'' = Some m"
  by (auto simp: verify_gravitational_constant_def Let_def
      split: sum.splits option.splits prod.splits)

lemma cgrav_Inr_M_s:
  "compute_gravitational_constant L K p c = (Inr x, c') \<Longrightarrow> \<exists>m. c' ''M_s'' = Some m"
  by (auto simp: compute_gravitational_constant_def Let_def
      split: sum.splits option.splits prod.splits)

lemma run_all_Inr_M_s:
  "run_all_verifications L p c = (Inr d, c') \<Longrightarrow> \<exists>m. c' ''M_s'' = Some m"
  by (auto simp: run_all_verifications_def dest: vgrav_Inr_M_s split: sum.splits prod.splits)

lemma run_complete_Inr_M_s:
  "run_complete_analysis L K p c = (Inr d, c') \<Longrightarrow> \<exists>m. c' ''M_s'' = Some m"
  by (auto simp: run_complete_analysis_def dest: cgrav_Inr_M_s split: sum.splits prod.splits)

lemma canon_verification_M_s_exact:
  assumes "canon_verification (exact_lib S) p ''M_s'' = Inr m"
  shows "m = exp 1 * pi\<^sup>2 * (1.054571817 / 10 ^ 34) / 299792458"
proof -
  from assms obtain T G gp where
    gc: "geometric_coupling (\<lambda>x. x) T = Inr G"
    and gv: "gravitational_values (\<lambda>x. x) G T = Inr (m, gp)"
    by (auto simp: canon_verification_def Let_def bind_err_Inr split: prod.splits)
  from gc have T0: "T \<noteq> 0" and G: "G = 1 / (exp 1 * pi * sqrt 2 * T)"
    by (auto simp: geometric_coupling_exact split: if_splits)
  have G0: "G \<noteq> 0" using T0 G by simp
  have "case gravitational_values (\<lambda>x. x) G T of
          Inl err \<Rightarrow> False
        | Inr (M_s, G_pred) \<Rightarrow>
            M_s = 1.054571817 / 10 ^ 34 / 299792458 * (pi / sqrt 2) * (1 / (G * T))"
    using G0 T0
    by (simp add: gravitational_values_def substrate_mass_def bind_err_def mp_defs Let_def)
  with gv have "m = 1.054571817 / 10 ^ 34 / 299792458 * (pi / sqrt 2) * (1 / (G * T))"
    by simp
  then show ?thesis
    unfolding G substrate_mass_of_coupling [OF T0] by simp
qed

lemma canon_calculator_M_s_exact:
  assumes "canon_calculator (exact_lib S) K p ''M_s'' = Inr m"
  shows "m = exp 1 * pi\<^sup>2 * sc_hbar K / sc_c K"
proof -
  from assms obtain T G gp where
    gc: "geometric_coupling (\<lambda>x. x) T = Inr G"
    and gv: "calc_gravitational_values (\<lambda>x. x) (\<lambda>x. x) K G T = Inr (m, gp)"
    by (auto simp: canon_calculator_def Let_def bind_err_Inr split: prod.splits)
  from gc have T0: "T \<noteq> 0" and G: "G = 1 / (exp 1 * pi * sqrt 2 * T)"
    by (auto simp: geometric_coupling_exact split: if_splits)
  have G0: "G \<noteq> 0" using T0 G by simp
  have c0: "sc_c K \<noteq> 0"
    using gv
    by (auto simp: calc_gravitational_values_def calc_substrate_mass_def float_div_def
        bind_err_def)
  have h0: "sc_hbar K \<noteq> 0"
    using gv c0 G0 T0
    by (auto simp: calc_gravitational_values_def calc_substrate_mass_def bind_err_def mp_defs)
  have "case calc_gravitational_values (\<lambda>x. x) (\<lambda>x. x) K G T of
          Inl err \<Rightarrow> False
        | Inr (M_s, G_pred) \<Rightarrow> M_s = sc_hbar K / sc_c K * (pi / sqrt 2) * (1 / (G * T))"
    using G0 T0 c0 h0
    by (simp add: calc_gravitational_values_def calc_substrate_mass_def bind_err_def mp_defs)
  with gv have "m = sc_hbar K / sc_c K * (pi / sqrt 2) * (1 / (G * T))"
    by simp
  then show ?thesis
    unfolding G substrate_mass_of_coupling [OF T0] by simp
qed

lemma settled_M_s_verification:
  assumes "settled (canon_verification (exact_lib S) p) c'" and "c' ''M_s'' = Some m"
  shows "c' ''M_s'' = Some (exp 1 * pi\<^sup>2 * (1.054571817 / 10 ^ 34) / 299792458)"
  using canon_verification_M_s_exact [OF settledD [OF assms]] assms(2) by simp

lemma settled_M_s_calculator:
  assumes "settled (canon_calculator (exact_lib S) K p) c'" and "c' ''M_s'' = Some m"
  shows "c' ''M_s'' = Some (exp 1 * pi\<^sup>2 * sc_hbar K / sc_c K)"
  using canon_calculator_M_s_exact [OF settledD [OF assms]] assms(2) by simp

lemma reachable_verification:
  "settled (canon_verification L p) (fold (invoke_verification L p) ms Map.empty)"
  by (rule fold_settled [OF settled_invoke_verification settled_empty])

lemma reachable_calculator:
  "settled (canon_calculator L K p) (fold (invoke_calculator L K p) ns Map.empty)"
  by (rule fold_settled [OF settled_invoke_calculator settled_empty])

text \<open>
  Claim C10. In exact arithmetic the substrate mass scale does not depend on the root.
  Whenever the gravitational stage of either class returns normally, the \<open>M_s\<close> it has
  stored is \<open>e * pi\<^sup>2 * hbar / c\<close>, whatever the root finder returned: this holds when the
  stage starts from any dictionary without a cached \<open>G\<close> (so that \<open>G\<close> is computed from
  \<open>T_eq\<close> by the geometric-coupling formula), and when it starts from the dictionary left
  by any sequence of method calls on a fresh instance, in particular with \<open>G\<close> cached by
  an earlier stage; the same value is in the dictionary when the driver of either class
  returns. A root of exactly zero makes the geometric coupling raise ZeroDivisionError,
  so no such run returns.
\<close>

theorem substrate_mass_independent_of_root:
  "(c ''G'' = None \<and> verify_gravitational_constant (exact_lib S) p c = (Inr x, c') \<longrightarrow>
      c' ''M_s'' = Some (exp 1 * pi\<^sup>2 * (1.054571817 / 10 ^ 34) / 299792458)) \<and>
   (c ''G'' = None \<and> compute_gravitational_constant (exact_lib S) K p c = (Inr y, c'') \<longrightarrow>
      c'' ''M_s'' = Some (exp 1 * pi\<^sup>2 * sc_hbar K / sc_c K)) \<and>
   (verify_gravitational_constant (exact_lib S) p
        (fold (invoke_verification (exact_lib S) p) ms Map.empty) = (Inr x1, c1) \<longrightarrow>
      c1 ''M_s'' = Some (exp 1 * pi\<^sup>2 * (1.054571817 / 10 ^ 34) / 299792458)) \<and>
   (compute_gravitational_constant (exact_lib S) K p
        (fold (invoke_calculator (exact_lib S) K p) ns Map.empty) = (Inr y1, c2) \<longrightarrow>
      c2 ''M_s'' = Some (exp 1 * pi\<^sup>2 * sc_hbar K / sc_c K)) \<and>
   (run_all_verifications (exact_lib S) p
        (fold (invoke_verification (exact_lib S) p) ms Map.empty) = (Inr d1, c3) \<longrightarrow>
      c3 ''M_s'' = Some (exp 1 * pi\<^sup>2 * (1.054571817 / 10 ^ 34) / 299792458)) \<and>
   (run_complete_analysis (exact_lib S) K p
        (fold (invoke_calculator (exact_lib S) K p) ns Map.empty) = (Inr d2, c4) \<longrightarrow>
      c4 ''M_s'' = Some (exp 1 * pi\<^sup>2 * sc_hbar K / sc_c K))"
proof (intro conjI impI)
  assume "c ''G'' = None \<and> verify_gravitational_constant (exact_lib S) p c = (Inr x, c')"
  then show "c' ''M_s'' = Some (exp 1 * pi\<^sup>2 * (1.054571817 / 10 ^ 34) / 299792458)"
    using vgrav_M_s [of c S p x c'] by blast
next
  assume "c ''G'' = None \<and> compute_gravitational_constant (exact_lib S) K p c = (Inr y, c'')"
  then show "c'' ''M_s'' = Some (exp 1 * pi\<^sup>2 * sc_hbar K / sc_c K)"
    using cgrav_M_s [of c S K p y c''] by blast
next
  let ?c = "fold (invoke_verification (exact_lib S) p) ms Map.empty"
  assume r: "verify_gravitational_constant (exact_lib S) p ?c = (Inr x1, c1)"
  from settled_grav [OF reachable_verification, of "exact_lib S" p ms] r
  have s: "settled (canon_verification (exact_lib S) p) c1" by simp
  from vgrav_Inr_M_s [OF r] obtain m where "c1 ''M_s'' = Some m" ..
  then show "c1 ''M_s'' = Some (exp 1 * pi\<^sup>2 * (1.054571817 / 10 ^ 34) / 299792458)"
    by (rule settled_M_s_verification [OF s])
next
  let ?c = "fold (invoke_calculator (exact_lib S) K p) ns Map.empty"
  assume r: "compute_gravitational_constant (exact_lib S) K p ?c = (Inr y1, c2)"
  from settled_cgrav [OF reachable_calculator, of "exact_lib S" K p ns] r
  have s: "settled (canon_calculator (exact_lib S) K p) c2" by simp
  from cgrav_Inr_M_s [OF r] obtain m where "c2 ''M_s'' = Some m" ..
  then show "c2 ''M_s'' = Some (exp 1 * pi\<^sup>2 * sc_hbar K / sc_c K)"
    by (rule settled_M_s_calculator [OF s])
next
  let ?c = "fold (invoke_verification (exact_lib S) p) ms Map.empty"
  assume r: "run_all_verifications (exact_lib S) p ?c = (Inr d1, c3)"
  from settled_run_all [OF reachable_verification, of "exact_lib S" p ms] r
  have s: "settled (canon_verification (exact_lib S) p) c3" by simp
  from run_all_Inr_M_s [OF r] obtain m where "c3 ''M_s'' = Some m" ..
  then show "c3 ''M_s'' = Some (exp 1 * pi\<^sup>2 * (1.054571817 / 10 ^ 34) / 299792458)"
    by (rule settled_M_s_verification [OF s])
next
  let ?c = "fold (invoke_calculator (exact_lib S) K p) ns Map.empty"
  assume r: "run_complete_analysis (exact_lib S) K p ?c = (Inr d2, c4)"
  from settled_run_complete [OF reachable_calculator, of "exact_lib S" K p ns] r
  have s: "settled (canon_calculator (exact_lib S) K p) c4" by simp
  from run_complete_Inr_M_s [OF r] obtain m where "c4 ''M_s'' = Some m" ..
  then show "c4 ''M_s'' = Some (exp 1 * pi\<^sup>2 * sc_hbar K / sc_c K)"
    by (rule settled_M_s_calculator [OF s])
qed

text \<open>
  Runs with a root finder that returns 1.614: the stage on a fresh instance, the stage
  after \<open>G\<close> has been cached by an earlier call, and the drivers.
\<close>

theorem substrate_mass_independent_of_root_witness:
  "(Map.empty :: cache) ''G'' = None \<and>
   (\<exists>x. fst (verify_gravitational_constant (exact_lib (fixed_root 1.614)) 100 Map.empty)
           = Inr x) \<and>
   snd (verify_gravitational_constant (exact_lib (fixed_root 1.614)) 100 Map.empty) ''M_s''
     = Some (exp 1 * pi\<^sup>2 * (1.054571817 / 10 ^ 34) / 299792458) \<and>
   (\<exists>y. fst (compute_gravitational_constant (exact_lib (fixed_root 1.614)) scipy_table 100
             Map.empty) = Inr y) \<and>
   snd (compute_gravitational_constant (exact_lib (fixed_root 1.614)) scipy_table 100 Map.empty)
     ''M_s'' = Some (exp 1 * pi\<^sup>2 * sc_hbar scipy_table / sc_c scipy_table) \<and>
   fold (invoke_verification (exact_lib (fixed_root 1.614)) 100) [Verify_zdc] Map.empty ''G''
     = Some (1 / (exp 1 * pi * sqrt 2 * 1.614)) \<and>
   (\<exists>x. fst (verify_gravitational_constant (exact_lib (fixed_root 1.614)) 100
             (fold (invoke_verification (exact_lib (fixed_root 1.614)) 100) [Verify_zdc]
                Map.empty)) = Inr x) \<and>
   snd (verify_gravitational_constant (exact_lib (fixed_root 1.614)) 100
          (fold (invoke_verification (exact_lib (fixed_root 1.614)) 100) [Verify_zdc]
             Map.empty)) ''M_s''
     = Some (exp 1 * pi\<^sup>2 * (1.054571817 / 10 ^ 34) / 299792458) \<and>
   fold (invoke_calculator (exact_lib (fixed_root 1.614)) scipy_table 100)
     [Compute_geometric_factors] Map.empty ''G''
     = Some (1 / (exp 1 * pi * sqrt 2 * 1.614)) \<and>
   (\<exists>y. fst (compute_gravitational_constant (exact_lib (fixed_root 1.614)) scipy_table 100
             (fold (invoke_calculator (exact_lib (fixed_root 1.614)) scipy_table 100)
                [Compute_geometric_factors] Map.empty)) = Inr y) \<and>
   snd (compute_gravitational_constant (exact_lib (fixed_root 1.614)) scipy_table 100
          (fold (invoke_calculator (exact_lib (fixed_root 1.614)) scipy_table 100)
             [Compute_geometric_factors] Map.empty)) ''M_s''
     = Some (exp 1 * pi\<^sup>2 * sc_hbar scipy_table / sc_c scipy_table) \<and>
   (\<exists>d. fst (run_all_verifications (exact_lib (fixed_root 1.614)) 100
             (fold (invoke_verification (exact_lib (fixed_root 1.614)) 100) [Verify_zdc]
                Map.empty)) = Inr d) \<and>
   snd (run_all_verifications (exact_lib (fixed_root 1.614)) 100
          (fold (invoke_verification (exact_lib (fixed_root 1.614)) 100) [Verify_zdc]
             Map.empty)) ''M_s''
     = Some (exp 1 * pi\<^sup>2 * (1.054571817 / 10 ^ 34) / 299792458) \<and>
   (\<exists>d. fst (run_complete_analysis (exact_lib (fixed_root 1.614)) scipy_table 100
             (fold (invoke_calculator (exact_lib (fixed_root 1.614)) scipy_table 100)
                [Compute_geometric_factors] Map.empty)) = Inr d) \<and>
   snd (run_complete_analysis (exact_lib (fixed_root 1.614)) scipy_table 100
          (fold (invoke_calculator (exact_lib (fixed_root 1.614)) scipy_table 100)
             [Compute_geometric_factors] Map.empty)) ''M_s''
     = Some (exp 1 * pi\<^sup>2 * sc_hbar scipy_table / sc_c scipy_table)"
proof -
  let ?S = "fixed_root 1.614"
  let ?L = "exact_lib ?S"
  let ?K = "scipy_table"
  let ?g = "1 / (exp 1 * pi * sqrt 2 * 1.614) :: real"
  let ?cv = "fold (invoke_verification ?L 100) [Verify_zdc] Map.empty"
  let ?cc = "fold (invoke_calculator ?L ?K 100) [Compute_geometric_factors] Map.empty"
  have S: "findroot ?L 100 (transcendental_eq (4.350917 / 10 ^ 14)) 1 = Inr 1.614"
    by (simp add: fixed_root_def)
  have ne: "1836.15267343 * (1 / (exp 1 * pi * sqrt 2 * 1.614)) \<noteq> (137.035999084::real)"
    using prediction_below_CODATA by simp
  have K: "sc_c ?K \<noteq> 0" "sc_hbar ?K \<noteq> 0"
    by (simp_all add: scipy_table_def)
  have g0: "?g \<noteq> 0" and t0: "(1.614::real) \<noteq> 0" by simp_all
  \<comment> \<open>the stage on a fresh instance\<close>
  obtain r1 c1 where 1: "verify_gravitational_constant ?L 100 Map.empty = (r1, c1)"
    by (cases "verify_gravitational_constant ?L 100 Map.empty")
  have "\<exists>x. r1 = Inr x"
    using 1
    by (auto simp: verify_gravitational_constant_def ensure_def vgc_exact_fresh fixed_root_def
        substrate_mass_def bind_err_def mp_defs Let_def)
  then obtain x where x: "r1 = Inr x" ..
  obtain r2 c2 where 2: "compute_gravitational_constant ?L ?K 100 Map.empty = (r2, c2)"
    by (cases "compute_gravitational_constant ?L ?K 100 Map.empty")
  have "\<exists>y. r2 = Inr y"
    using 2
    by (auto simp: compute_gravitational_constant_def ensure_def cgf_exact fixed_root_def
        calc_substrate_mass_def bind_err_def mp_defs Let_def scipy_table_def)
  then obtain y where y: "r2 = Inr y" ..
  \<comment> \<open>the stage with \<open>G\<close> cached\<close>
  have gv: "?cv ''G'' = Some ?g" and tv: "?cv ''T_eq'' = Some 1.614"
    by (simp_all add: verify_zdc_def ensure_def vgc_exact_fresh fixed_root_def mp_defs Let_def)
  obtain x1 c3 where 3: "verify_gravitational_constant ?L 100 ?cv = (Inr x1, c3)"
    unfolding vgrav_exact [of ?cv ?g "1.614" ?S 100, OF gv tv g0 t0] by blast
  have gc: "?cc ''G'' = Some ?g" and tc: "?cc ''T_eq'' = Some 1.614"
    by (simp_all add: cgf_exact fixed_root_def)
  obtain y1 c4 where 4: "compute_gravitational_constant ?L ?K 100 ?cc = (Inr y1, c4)"
    unfolding cgrav_exact [of ?cc ?g "1.614" ?K ?S 100, OF gc tc g0 t0 K] by blast
  \<comment> \<open>the drivers\<close>
  obtain d1 where 5: "run_all_verifications ?L 100 ?cv = (Inr d1, d1)"
    using run_all_exact(2) [OF S t0 ne, of ?cv] by blast
  obtain d2 where 6: "run_complete_analysis ?L ?K 100 ?cc = (Inr d2, d2)"
    using run_complete_exact [OF S t0 ne K, of ?cc] by blast
  from substrate_mass_independent_of_root
      [of Map.empty ?S 100 x c1 ?K y c2 "[Verify_zdc]" x1 c3 "[Compute_geometric_factors]"
          y1 c4 d1 d1 d2 d2]
    1 2 x y 3 4 5 6 gv gc
  show ?thesis by simp
qed

end
